theory Spec2Isabelle
  imports Main
begin


section \<open>Strings, bytes and runes\<close>

text \<open>
  A Go string is a sequence of bytes: a \<open>string\<close> (list of 8-bit characters) here. A
  \<open>range\<close> loop over a string and the conversion \<open>[]rune(s)\<close> decode it as UTF-8, one
  rune at a time; a byte that starts no valid encoding is read as the replacement rune
  U+FFFD of width 1. \<open>decodeRune\<close> is that decoding step on the bytes ahead, with the
  masks and shifts of the runtime written as \<open>mod\<close>, \<open>*\<close> and \<open>+\<close>. Runes (\<open>int32\<close>) and
  byte values are integers; none leaves the range of its type.
\<close>

definition runeError :: int where
  "runeError = 0xFFFD"

definition byte :: "char \<Rightarrow> int" where
  "byte c = of_char c"

definition cont :: "char \<Rightarrow> bool" where
  "cont c = (0x80 \<le> byte c \<and> byte c \<le> 0xBF)"

fun decodeRune :: "string \<Rightarrow> int \<times> nat" where
  "decodeRune [] = (runeError, 1)"
| "decodeRune (c0 # rest) =
     (if byte c0 < 0x80 then (byte c0, 1)
      else if 0xC0 \<le> byte c0 \<and> byte c0 < 0xE0 then
        (case rest of
           c1 # _ \<Rightarrow>
             if cont c1 then
               (let r = (byte c0 mod 32) * 64 + byte c1 mod 64
                in if 0x7F < r then (r, 2) else (runeError, 1))
             else (runeError, 1)
         | _ \<Rightarrow> (runeError, 1))
      else if 0xE0 \<le> byte c0 \<and> byte c0 < 0xF0 then
        (case rest of
           c1 # c2 # _ \<Rightarrow>
             if cont c1 \<and> cont c2 then
               (let r = (byte c0 mod 16) * 4096 + (byte c1 mod 64) * 64 + byte c2 mod 64
                in if 0x7FF < r \<and> \<not> (0xD800 \<le> r \<and> r \<le> 0xDFFF) then (r, 3)
                   else (runeError, 1))
             else (runeError, 1)
         | _ \<Rightarrow> (runeError, 1))
      else if 0xF0 \<le> byte c0 \<and> byte c0 < 0xF8 then
        (case rest of
           c1 # c2 # c3 # _ \<Rightarrow>
             if cont c1 \<and> cont c2 \<and> cont c3 then
               (let r = (byte c0 mod 8) * 262144 + (byte c1 mod 64) * 4096
                          + (byte c2 mod 64) * 64 + byte c3 mod 64
                in if 0xFFFF < r \<and> r \<le> 0x10FFFF then (r, 4) else (runeError, 1))
             else (runeError, 1)
         | _ \<Rightarrow> (runeError, 1))
      else (runeError, 1))"



text \<open>
  The runes of a string with their widths, in order: what a \<open>range\<close> loop visits. Every
  step consumes at least one byte.
\<close>

function runes :: "string \<Rightarrow> (int \<times> nat) list" where
  "runes [] = []"
| "runes (c # cs) = decodeRune (c # cs) # runes (drop (snd (decodeRune (c # cs))) (c # cs))"
  by pat_completeness auto
termination
proof (relation "measure length")
  show "wf (measure length)" by simp
next
  fix c :: char and cs :: string
  have "1 \<le> snd (decodeRune (c # cs))"
    by (auto simp: Let_def split: list.splits)
  then show "(drop (snd (decodeRune (c # cs))) (c # cs), c # cs) \<in> measure length"
    by simp
qed

definition runeCount :: "string \<Rightarrow> nat" where
  "runeCount s = length (runes s)"

text \<open>\<open>utf8.ValidString\<close>: no byte is read as a decoding error.\<close>

definition validUTF8 :: "string \<Rightarrow> bool" where
  "validUTF8 s = list_all (\<lambda>rw. rw \<noteq> (runeError, 1)) (runes s)"

text \<open>
  \<open>utf8.RuneLen\<close> and \<open>utf8.EncodeRune\<close>. A negative rune, a surrogate or a rune
  beyond U+10FFFF has length \<open>-1\<close> and is encoded as the replacement rune.
\<close>

definition RuneLen :: "int \<Rightarrow> int" where
  "RuneLen r =
     (if r < 0 then - 1
      else if r \<le> 0x7F then 1
      else if r \<le> 0x7FF then 2
      else if 0xD800 \<le> r \<and> r \<le> 0xDFFF then - 1
      else if r \<le> 0xFFFF then 3
      else if r \<le> 0x10FFFF then 4
      else - 1)"

definition encode3 :: "int \<Rightarrow> string" where
  "encode3 r = [char_of (0xE0 + r div 4096), char_of (0x80 + (r div 64) mod 64),
                char_of (0x80 + r mod 64)]"

definition EncodeRune :: "int \<Rightarrow> string" where
  "EncodeRune r =
     (if 0 \<le> r \<and> r \<le> 0x7F then [char_of r]
      else if 0 \<le> r \<and> r \<le> 0x7FF then [char_of (0xC0 + r div 64), char_of (0x80 + r mod 64)]
      else if r < 0 \<or> 0x10FFFF < r \<or> (0xD800 \<le> r \<and> r \<le> 0xDFFF) then encode3 runeError
      else if r \<le> 0xFFFF then encode3 r
      else [char_of (0xF0 + r div 262144), char_of (0x80 + (r div 4096) mod 64),
            char_of (0x80 + (r div 64) mod 64), char_of (0x80 + r mod 64)])"

section \<open>Data model\<close>

text \<open>
  Timestamps are opaque instants. Go's \<open>int\<close> is 64 bits wide; every integer below is
  a page number, a count or a byte size far from that range, so \<open>int\<close> is used.
\<close>

type_synonym Time = nat

datatype PageStatus = PageStatusPending | PageStatusCompleted | PageStatusError

record PageResult =
  Page_ID :: string
  PageNumber :: int
  ImagePath :: string
  ImageURL :: string
  TextPath :: string
  TextURL :: string
  HasText :: bool
  SourceText :: string
  Translation :: string
  Status :: PageStatus
  Error :: string
  Page_UpdatedAt :: Time

record ProviderInfo =
  Type :: string
  BaseURL :: string
  Model :: string
  MaxTokens :: int

record Task =
  ID :: string
  FileName :: string
  OriginalPath :: string
  TotalPages :: int
  Pages :: "PageResult list"
  CombinedTxtPath :: string
  CombinedTxtURL :: string
  CombinedPDFPath :: string
  CombinedPDFURL :: string
  CreatedAt :: Time
  UpdatedAt :: Time
  Provider :: ProviderInfo
  FormattingOptimized :: bool
  FormattedByAI :: bool
  FormattedTxtPath :: string
  FormattedTxtURL :: string
  FormattedPDFPath :: string
  FormattedPDFURL :: string
  FormattingInProgress :: bool
  FormattingTotalChunks :: int
  FormattingCompletedChunks :: int

record TranslationSettings =
  RangeMode :: string
  RangeCustom :: int
  RangeStart :: int
  RangeEnd :: int
  BatchLimit :: int

text \<open>
  The functions of Go's \<open>strings\<close> package that the service calls. They act on
  Unicode (white space and case of every script), so they are parameters of the model;
  \<open>asciiStrings\<close> is an instance for ASCII text, used to run the model.
\<close>

record strings =
  TrimSpace :: "string \<Rightarrow> string"
  ToLower :: "string \<Rightarrow> string"

definition asciiIsSpace :: "char \<Rightarrow> bool" where
  "asciiIsSpace c = (c \<in> set [CHR 0x09, CHR 0x0A, CHR 0x0B, CHR 0x0C, CHR 0x0D, CHR '' ''])"

definition asciiTrimSpace :: "string \<Rightarrow> string" where
  "asciiTrimSpace s = rev (dropWhile asciiIsSpace (rev (dropWhile asciiIsSpace s)))"

definition asciiToLowerChar :: "char \<Rightarrow> char" where
  "asciiToLowerChar c =
     (if 65 \<le> (of_char c :: nat) \<and> (of_char c :: nat) \<le> 90
      then char_of ((of_char c :: nat) + 32) else c)"

definition asciiStrings :: strings where
  "asciiStrings = \<lparr> TrimSpace = asciiTrimSpace, ToLower = map asciiToLowerChar \<rparr>"

section \<open>Initial page selection\<close>

text \<open>
  \<open>determineInitialPageSet\<close> returns a \<open>map[int]bool\<close> in which every stored value
  is \<open>true\<close>: it is modelled by the list of its keys in insertion order, a lookup
  \<open>selectedMap[n]\<close> by membership (a missing key reads \<open>false\<close>) and
  \<open>len(result) == 0\<close> by the list being empty. The loops \<open>for i := a; i <= b; i++\<close>
  insert the keys \<open>[a..b]\<close>.
\<close>

definition determineInitialPageSet :: "strings \<Rightarrow> int \<Rightarrow> TranslationSettings \<Rightarrow> int list" where
  "determineInitialPageSet L totalN settings =
     (let mode = ToLower L (TrimSpace L (RangeMode settings));
          result =
            (if mode = ''custom'' then
               (let limit = RangeCustom settings in
                if limit \<le> 0 then []
                else (let limit' = (if limit > totalN then totalN else limit) in [1..limit']))
             else if mode = ''range'' then
               (let start0 = RangeStart settings; end0 = RangeEnd settings in
                if start0 \<le> 0 \<and> end0 \<le> 0 then []
                else
                  (let start1 = (if start0 \<le> 0 then 1 else start0);
                       end1 = (if end0 \<le> 0 then totalN else end0);
                       start2 = (if start1 > end1 then end1 else start1);
                       end2 = (if start1 > end1 then start1 else end1);
                       start3 = (if start2 > totalN then totalN else start2);
                       end3 = (if end2 > totalN then totalN else end2)
                   in [start3..end3]))
             else [])
      in if result = [] then [1..totalN] else result)"

section \<open>Task store\<close>

text \<open>
  A task is persisted as \<open>meta.json\<close> in its own directory. \<open>json.MarshalIndent\<close> and
  \<open>json.Unmarshal\<close> belong to the standard library: they are the parameters
  \<open>marshal\<close> and \<open>unmarshal\<close>, over any type \<open>'b\<close> of file contents. The disk
  holds the metadata files and, apart from them, the plain text artifacts.
  Paths are joined with \<open>/\<close> (what \<open>filepath.Join\<close> does to elements that need no
  cleaning).
\<close>

record 'b codec =
  marshal :: "Task \<Rightarrow> 'b"
  unmarshal :: "'b \<Rightarrow> Task option"

record 'b disk =
  files :: "string \<rightharpoonup> 'b"
  texts :: "string \<rightharpoonup> string"

record TaskService =
  storageDir :: string
  staticPrefix :: string
  fontPath :: string
  maxWorkers :: int

datatype error =
    ErrReadTask
  | ErrParseTask
  | ErrWriteFile
  | ErrRename
  | ErrPageNotFound int
  | ErrSetup string

definition taskDir :: "TaskService \<Rightarrow> string \<Rightarrow> string" where
  "taskDir s taskID = storageDir s @ ''/'' @ taskID"

definition metaPath :: "TaskService \<Rightarrow> string \<Rightarrow> string" where
  "metaPath s taskID = taskDir s taskID @ ''/meta.json''"

definition loadTask :: "'b codec \<Rightarrow> TaskService \<Rightarrow> 'b disk \<Rightarrow> string \<Rightarrow> error + Task" where
  "loadTask C s d taskID =
     (case files d (metaPath s taskID) of
        None \<Rightarrow> Inl ErrReadTask
      | Some data \<Rightarrow>
          (case unmarshal C data of
             None \<Rightarrow> Inl ErrParseTask
           | Some task \<Rightarrow> Inr task))"

text \<open>
  What one call of \<open>saveTaskLocked\<close> meets: the clock, and whether writing the temporary
  file and renaming it succeed. The task's \<open>UpdatedAt\<close> is stamped in memory before
  anything is written, so the caller's task carries the stamp also when the save fails.
  \<open>saveTask\<close> is the same behind the service mutex.
\<close>

datatype save_outcome = SaveOK | WriteTmpFails | RenameFails

record save_io =
  save_now :: Time
  save_outcome :: save_outcome

definition saveTaskLocked ::
  "'b codec \<Rightarrow> TaskService \<Rightarrow> save_io \<Rightarrow> Task \<Rightarrow> 'b disk \<Rightarrow> error option \<times> Task \<times> 'b disk" where
  "saveTaskLocked C s io task d =
     (let task' = task\<lparr>UpdatedAt := save_now io\<rparr>;
          path = metaPath s (ID task');
          data = marshal C task';
          tmp = path @ ''.tmp''
      in case save_outcome io of
           WriteTmpFails \<Rightarrow> (Some ErrWriteFile, task', d)
         | RenameFails \<Rightarrow> (Some ErrRename, task', d\<lparr>files := (files d)(tmp \<mapsto> data)\<rparr>)
         | SaveOK \<Rightarrow> (None, task', d\<lparr>files := ((files d)(tmp := None))(path \<mapsto> data)\<rparr>))"

definition saveTask ::
  "'b codec \<Rightarrow> TaskService \<Rightarrow> save_io \<Rightarrow> Task \<Rightarrow> 'b disk \<Rightarrow> error option \<times> Task \<times> 'b disk" where
  "saveTask C s io task d = saveTaskLocked C s io task d"

text \<open>
  A law that a codec may have: what was marshalled parses back to the same task. The
  codec of the service, \<open>encoding/json\<close>, has it at the tasks whose strings are all
  valid UTF-8 (see \<open>jsonCodec\<close> below); a string that is not comes back with U+FFFD
  in place of each offending byte.
\<close>

definition codec_ok :: "'b codec \<Rightarrow> bool" where
  "codec_ok C = (\<forall>t. unmarshal C (marshal C t) = Some t)"

section \<open>Translating one page\<close>

text \<open>
  \<open>Result\<close> is what a provider's \<open>Translate\<close> returns. \<open>page_io\<close> is what one call of
  \<open>translateSinglePage\<close> meets outside the service: the provider's answer (\<open>Inl\<close> holds
  the text of the error), the clock, the outcome of writing the page's text file, the URL
  that \<open>buildFileURL\<close> computes for that file, and the save.
\<close>

record Result =
  Result_HasText :: bool
  Result_SourceText :: string
  TranslatedText :: string

record page_io =
  translated :: "string + Result"
  page_now :: Time
  write_txt :: "string option"
  text_url :: string
  page_save :: save_io

text \<open>The bytes of the message prefix of a failed text-file write (UTF-8).\<close>

definition writeTxtFailed :: string where
  "writeTxtFailed =
     [CHR 0xE5, CHR 0x86, CHR 0x99, CHR 0xE5, CHR 0x85, CHR 0xA5, CHR ''T'', CHR ''X'', CHR ''T'',
      CHR 0xE5, CHR 0xA4, CHR 0xB1, CHR 0xE8, CHR 0xB4, CHR 0xA5, CHR '':'', CHR '' '']"

text \<open>
  A page is a pointer into \<open>task.Pages\<close>: the model names it by its index \<open>idx\<close> in
  the in-memory task, and a write through the pointer is a list update.
\<close>

definition setPage :: "Task \<Rightarrow> nat \<Rightarrow> PageResult \<Rightarrow> Task" where
  "setPage task idx page = task\<lparr>Pages := (Pages task)[idx := page]\<rparr>"

text \<open>
  The loop of \<open>persistPageUpdate\<close>: the first page with the same id is replaced; the
  flag tells whether one was found.
\<close>

fun replacePage :: "PageResult \<Rightarrow> PageResult list \<Rightarrow> PageResult list \<times> bool" where
  "replacePage page [] = ([], False)"
| "replacePage page (existing # rest) =
     (if Page_ID existing = Page_ID page then (page # rest, True)
      else (case replacePage page rest of (rest', replaced) \<Rightarrow> (existing # rest', replaced)))"

definition mergePageById :: "PageResult \<Rightarrow> PageResult list \<Rightarrow> PageResult list" where
  "mergePageById page pages =
     (case replacePage page pages of
        (pages', replaced) \<Rightarrow> if replaced then pages' else pages @ [page])"

definition persistPageUpdate ::
  "'b codec \<Rightarrow> TaskService \<Rightarrow> save_io \<Rightarrow> Task \<Rightarrow> nat \<Rightarrow> bool \<Rightarrow> 'b disk
     \<Rightarrow> error option \<times> Task \<times> 'b disk" where
  "persistPageUpdate C s io task idx merge d =
     (if \<not> merge then saveTask C s io task d
      else
        (case loadTask C s d (ID task) of
           Inl e \<Rightarrow> (Some e, task, d)
         | Inr current \<Rightarrow>
             (case saveTask C s io (current\<lparr>Pages := mergePageById (Pages task ! idx) (Pages current)\<rparr>) d of
                (e, current', d') \<Rightarrow> (e, task, d'))))"

definition translateSinglePage ::
  "strings \<Rightarrow> 'b codec \<Rightarrow> TaskService \<Rightarrow> page_io \<Rightarrow> Task \<Rightarrow> nat \<Rightarrow> bool \<Rightarrow> 'b disk
     \<Rightarrow> error option \<times> Task \<times> 'b disk" where
  "translateSinglePage L C s io task idx mergeOnSave d =
     (let page = Pages task ! idx in
      case translated io of
        Inl err \<Rightarrow>
          saveTask C s (page_save io)
            (setPage task idx
               (page\<lparr>Status := PageStatusError, Error := err, Page_UpdatedAt := page_now io\<rparr>)) d
      | Inr result \<Rightarrow>
          (let page1 = page\<lparr>HasText := Result_HasText result,
                            SourceText := TrimSpace L (Result_SourceText result),
                            Translation := TrimSpace L (TranslatedText result),
                            Error := ''''\<rparr>
           in if HasText page1 \<and> Translation page1 \<noteq> '''' then
                (case write_txt io of
                   Some e \<Rightarrow>
                     saveTask C s (page_save io)
                       (setPage task idx
                          (page1\<lparr>Status := PageStatusError, Error := writeTxtFailed @ e,
                                 Page_UpdatedAt := page_now io\<rparr>)) d
                 | None \<Rightarrow>
                     persistPageUpdate C s (page_save io)
                       (setPage task idx
                          (page1\<lparr>TextURL := text_url io, Status := PageStatusCompleted,
                                 Page_UpdatedAt := page_now io\<rparr>))
                       idx mergeOnSave
                       (d\<lparr>texts := (texts d)(TextPath page1 \<mapsto> Translation page1)\<rparr>))
              else
                persistPageUpdate C s (page_save io)
                  (setPage task idx
                     (page1\<lparr>TextURL := '''', Status := PageStatusCompleted,
                            Page_UpdatedAt := page_now io\<rparr>))
                  idx mergeOnSave
                  (d\<lparr>texts := (texts d)(TextPath page1 := None)\<rparr>)))"

section \<open>Creating a task\<close>

definition NewTaskService :: "string \<Rightarrow> string \<Rightarrow> string \<Rightarrow> int \<Rightarrow> TaskService" where
  "NewTaskService dir prefix font workers =
     \<lparr> storageDir = dir, staticPrefix = prefix, fontPath = font,
       maxWorkers = (if workers \<le> 0 then 1 else workers) \<rparr>"

text \<open>
  What \<open>CreateTask\<close> meets outside the service. \<open>prepared\<close> is the outcome of everything
  that can fail before the task is built (the reader check, the provider configuration,
  the translator, the task directory, the copy of the upload, the rasterizer): an error,
  or the provider snapshot. Each rendered page comes with its fresh id and the paths and
  URL that the path functions derive from its image path.
\<close>

record rendered_page =
  new_page_id :: string
  image_path :: string
  image_url :: string
  text_path :: string

record create_io =
  prepared :: "error + ProviderInfo"
  new_task_id :: string
  safe_name :: string
  source_path :: string
  rendered :: "rendered_page list"
  create_now :: Time
  mark_now :: Time
  create_save :: save_io

definition newPage :: "Time \<Rightarrow> nat \<times> rendered_page \<Rightarrow> PageResult" where
  "newPage now ir =
     (case ir of (idx, r) \<Rightarrow>
        \<lparr> Page_ID = new_page_id r, PageNumber = int idx + 1, ImagePath = image_path r,
          ImageURL = image_url r, TextPath = text_path r, TextURL = '''', HasText = False,
          SourceText = '''', Translation = '''', Status = PageStatusPending, Error = '''',
          Page_UpdatedAt = now \<rparr>)"

definition newTask :: "create_io \<Rightarrow> ProviderInfo \<Rightarrow> Task" where
  "newTask io prov =
     \<lparr> ID = new_task_id io, FileName = safe_name io, OriginalPath = source_path io,
       TotalPages = int (length (rendered io)),
       Pages = map (newPage (create_now io)) (enumerate 0 (rendered io)),
       CombinedTxtPath = '''', CombinedTxtURL = '''', CombinedPDFPath = '''', CombinedPDFURL = '''',
       CreatedAt = create_now io, UpdatedAt = create_now io, Provider = prov,
       FormattingOptimized = True, FormattedByAI = False,
       FormattedTxtPath = '''', FormattedTxtURL = '''', FormattedPDFPath = '''', FormattedPDFURL = '''',
       FormattingInProgress = False, FormattingTotalChunks = 0, FormattingCompletedChunks = 0 \<rparr>"

text \<open>The body of the loop over \<open>task.Pages\<close> for one page.\<close>

definition markPage :: "Time \<Rightarrow> int list \<Rightarrow> PageResult \<Rightarrow> PageResult" where
  "markPage now selectedMap page =
     (if PageNumber page \<in> set selectedMap then page
      else page\<lparr>Status := PageStatusCompleted, HasText := False, SourceText := '''',
                Translation := '''', Error := '''', Page_UpdatedAt := now\<rparr>)"

definition selectedIndices :: "int list \<Rightarrow> PageResult list \<Rightarrow> nat list" where
  "selectedIndices selectedMap pages =
     filter (\<lambda>i. PageNumber (pages ! i) \<in> set selectedMap) [0..<length pages]"

text \<open>
  \<open>CreateTask\<close> returns the task together with the selected pages (their indices) that
  it hands to the background pool.
\<close>

definition CreateTask ::
  "strings \<Rightarrow> 'b codec \<Rightarrow> TaskService \<Rightarrow> create_io \<Rightarrow> TranslationSettings \<Rightarrow> 'b disk
     \<Rightarrow> (error + Task \<times> nat list) \<times> 'b disk" where
  "CreateTask L C s io settings d =
     (case prepared io of
        Inl e \<Rightarrow> (Inl e, d)
      | Inr prov \<Rightarrow>
          (let task = newTask io prov;
               selectedMap = determineInitialPageSet L (int (length (Pages task))) settings;
               selectedPages = selectedIndices selectedMap (Pages task);
               task' = task\<lparr>Pages := map (markPage (mark_now io) selectedMap) (Pages task)\<rparr>
           in case saveTask C s (create_save io) task' d of
                (Some e, task'', d') \<Rightarrow> (Inl e, d')
              | (None, task'', d') \<Rightarrow> (Inr (task'', selectedPages), d')))"

section \<open>The page worker pool\<close>



section \<open>Retranslating one page\<close>




section \<open>Outcomes of one page, named\<close>

text \<open>
  The page that \<open>translateSinglePage\<close> leaves behind when the provider fails, and the
  one it leaves when the provider answers and the text file is written (or, with no text,
  removed).
\<close>

definition failedPage :: "page_io \<Rightarrow> string \<Rightarrow> PageResult \<Rightarrow> PageResult" where
  "failedPage io err page =
     page\<lparr>Status := PageStatusError, Error := err, Page_UpdatedAt := page_now io\<rparr>"

definition writeFailedPage :: "strings \<Rightarrow> page_io \<Rightarrow> Result \<Rightarrow> string \<Rightarrow> PageResult \<Rightarrow> PageResult" where
  "writeFailedPage L io result e page =
     page\<lparr>HasText := Result_HasText result,
          SourceText := TrimSpace L (Result_SourceText result),
          Translation := TrimSpace L (TranslatedText result),
          Status := PageStatusError,
          Error := writeTxtFailed @ e,
          Page_UpdatedAt := page_now io\<rparr>"


section \<open>Saving what was loaded\<close>

text \<open>\<open>Save(Load(id))\<close> with no field changed in between: the disk it leaves.\<close>

definition saveLoaded ::
  "'b codec \<Rightarrow> TaskService \<Rightarrow> save_io \<Rightarrow> string \<Rightarrow> 'b disk \<Rightarrow> error option \<times> 'b disk" where
  "saveLoaded C s io taskID d =
     (case loadTask C s d taskID of
        Inl e \<Rightarrow> (Some e, d)
      | Inr task \<Rightarrow>
          (case saveTaskLocked C s io task d of (e, task', d') \<Rightarrow> (e, d')))"

section \<open>The initial selection as the specification words it\<close>

text \<open>
  A custom limit selects the pages \<open>1..min(limit, T)\<close>; a start/end range (an end that is
  not given defaults to the first and the last page) is swapped if inverted and clamped to
  the page count; everything else selects all pages.
\<close>

definition specInitialPages :: "strings \<Rightarrow> int \<Rightarrow> TranslationSettings \<Rightarrow> int set" where
  "specInitialPages L T settings =
     (let mode = ToLower L (TrimSpace L (RangeMode settings)) in
      if mode = ''custom'' \<and> 0 < RangeCustom settings then {1..min (RangeCustom settings) T}
      else if mode = ''range'' \<and> (0 < RangeStart settings \<or> 0 < RangeEnd settings) then
        (let a = (if RangeStart settings \<le> 0 then 1 else RangeStart settings);
             b = (if RangeEnd settings \<le> 0 then T else RangeEnd settings)
         in {min (min a b) T..min (max a b) T})
      else {1..T})"

section \<open>Formatter chunk sizing\<close>

text \<open>
  Provider kinds are plain strings in the service (\<open>ProviderType\<close>); the only
  value the sizing code compares against is \<open>"openai"\<close>.
\<close>

type_synonym ProviderType = string

definition ProviderTypeOpenAI :: ProviderType where
  "ProviderTypeOpenAI = ''openai''"

definition ProviderTypeGemini :: ProviderType where
  "ProviderTypeGemini = ''gemini''"

definition ProviderTypeAnthropic :: ProviderType where
  "ProviderTypeAnthropic = ''anthropic''"

definition SanitizeMaxTokens :: "int \<Rightarrow> int" where
  "SanitizeMaxTokens val = (if val \<le> 0 then 8192 else val)"

definition formatterChunkSize :: int where
  "formatterChunkSize = 60 * 1024"

definition minFormatterChunk :: int where
  "minFormatterChunk = 12 * 1024"

text \<open>
  \<open>estimateFormatterChunkSize\<close>, statement by statement. The source computes
  \<open>int(float64(maxTokens) * 4 * 0.4)\<close> in floating point; that conversion is the
  parameter \<open>scaled\<close>, so nothing below depends on how float64 rounds.
  All sizes are positive here, where Go's truncating \<open>/\<close> and \<open>div\<close> agree.
\<close>

definition estimateFormatterChunkSize :: "(int \<Rightarrow> int) \<Rightarrow> ProviderType \<Rightarrow> int \<Rightarrow> int" where
  "estimateFormatterChunkSize scaled provider maxTokens =
     (let size0 = formatterChunkSize;
          size1 =
            (if maxTokens > 0 then
               (let estimated0 = scaled maxTokens;
                    estimated1 = (if estimated0 < minFormatterChunk then minFormatterChunk else estimated0);
                    estimated2 = (if estimated1 > formatterChunkSize then formatterChunkSize else estimated1)
                in if estimated2 < size0 then estimated2 else size0)
             else size0);
          size2 =
            (if provider = ProviderTypeOpenAI then
               (if size1 > minFormatterChunk * 2 then size1 div 2 else minFormatterChunk)
             else size1)
      in if size2 < minFormatterChunk then minFormatterChunk else size2)"

text \<open>
  The budget as the specification words it: the scaled token budget clamped between the
  floor and the nominal maximum, halved for OpenAI-compatible providers with the floor
  still applied to the halved value.
\<close>

definition clampedBudget :: "int \<Rightarrow> int" where
  "clampedBudget e = max minFormatterChunk (min formatterChunkSize e)"

definition specChunkBudget :: "(int \<Rightarrow> int) \<Rightarrow> ProviderType \<Rightarrow> int \<Rightarrow> int" where
  "specChunkBudget scaled provider t =
     (if provider = ProviderTypeOpenAI
      then max minFormatterChunk (clampedBudget (scaled t) div 2)
      else clampedBudget (scaled t))"

section \<open>Splitting text into chunks\<close>

text \<open>
  The loop of \<open>splitTextChunks\<close> over the runes of the text, with the list of chunks, the
  builder and the byte count \<open>current\<close> as its state. \<open>buf\<close> holds the encoding of the
  rune (\<open>utf8.RuneLen(r)\<close> bytes, filled by \<open>utf8.EncodeRune\<close>).
\<close>

fun splitLoop :: "int \<Rightarrow> int list \<Rightarrow> string list \<Rightarrow> string \<Rightarrow> int \<Rightarrow> string list \<times> string \<times> int" where
  "splitLoop maxBytes [] chunks builder current = (chunks, builder, current)"
| "splitLoop maxBytes (r # rs) chunks builder current =
     (let buf = EncodeRune r;
          full = (current + int (length buf) > maxBytes \<and> builder \<noteq> []);
          chunks1 = (if full then chunks @ [builder] else chunks);
          builder1 = (if full then [] else builder);
          current1 = (if full then 0 else current);
          builder2 = builder1 @ buf;
          current2 = current1 + int (length buf)
      in if r = 10 \<and> current2 > maxBytes - 512
         then splitLoop maxBytes rs (chunks1 @ [builder2]) [] 0
         else splitLoop maxBytes rs chunks1 builder2 current2)"

definition splitTextChunks :: "string \<Rightarrow> int \<Rightarrow> string list" where
  "splitTextChunks text maxBytes =
     (let maxBytes' = (if maxBytes \<le> 0 then formatterChunkSize else maxBytes) in
      case splitLoop maxBytes' (map fst (runes text)) [] [] 0 of
        (chunks, builder, current) \<Rightarrow> if builder \<noteq> [] then chunks @ [builder] else chunks)"

text \<open>
  The text as the loop sees it: the encodings of its runes, one after the other. A byte
  that decodes to no rune is there as the three bytes of U+FFFD.
\<close>

definition reencoded :: "string \<Rightarrow> string" where
  "reencoded s = concat (map (\<lambda>rw. EncodeRune (fst rw)) (runes s))"

section \<open>JSON strings\<close>

text \<open>
  \<open>json.MarshalIndent\<close> writes every string of a task through the encoder's
  \<open>appendString\<close> (with HTML escaping on), and \<open>json.Unmarshal\<close> reads it back through
  \<open>unquote\<close>. Both belong to the standard library (\<open>encoding/json\<close>); they are written
  here as the library has them, over bytes, so that the stored bytes of a string can be
  followed through a load and a save.

  \<open>appendBody\<close> is the loop of \<open>appendString\<close>: a byte below \<open>0x80\<close> is copied when it
  is in \<open>htmlSafeSet\<close> and escaped otherwise; a byte that starts no valid encoding is
  written as the six characters of the escape of U+FFFD; U+2028 and U+2029 are escaped;
  any other rune is copied as it is. (Backspace and form feed are written \<open>\b\<close> and
  \<open>\f\<close>, as the library does since Go 1.22; before, it wrote them as \<open>\u0008\<close> and
  \<open>\u000c\<close>, which are read back the same.)
\<close>

definition hex :: "int \<Rightarrow> char" where
  "hex n = ''0123456789abcdef'' ! nat n"

definition htmlSafe :: "int \<Rightarrow> bool" where
  "htmlSafe b = (0x20 \<le> b \<and> b < 0x80 \<and> b \<noteq> 0x22 \<and> b \<noteq> 0x26 \<and> b \<noteq> 0x3C \<and> b \<noteq> 0x3E \<and> b \<noteq> 0x5C)"

definition escapeByte :: "char \<Rightarrow> string" where
  "escapeByte c =
     (if c = CHR 0x5C \<or> c = CHR 0x22 then [CHR 0x5C, c]
      else if c = CHR 0x08 then [CHR 0x5C, CHR ''b'']
      else if c = CHR 0x0C then [CHR 0x5C, CHR ''f'']
      else if c = CHR 0x0A then [CHR 0x5C, CHR ''n'']
      else if c = CHR 0x0D then [CHR 0x5C, CHR ''r'']
      else if c = CHR 0x09 then [CHR 0x5C, CHR ''t'']
      else [CHR 0x5C, CHR ''u'', CHR ''0'', CHR ''0'', hex (byte c div 16), hex (byte c mod 16)])"

function appendBody :: "string \<Rightarrow> string" where
  "appendBody [] = []"
| "appendBody (c # cs) =
     (if byte c < 0x80 then
        (if htmlSafe (byte c) then [c] else escapeByte c) @ appendBody cs
      else if decodeRune (c # cs) = (runeError, 1) then
        [CHR 0x5C, CHR ''u'', CHR ''f'', CHR ''f'', CHR ''f'', CHR ''d''] @ appendBody cs
      else if fst (decodeRune (c # cs)) = 0x2028 \<or> fst (decodeRune (c # cs)) = 0x2029 then
        [CHR 0x5C, CHR ''u'', CHR ''2'', CHR ''0'', CHR ''2'', hex (fst (decodeRune (c # cs)) mod 16)]
          @ appendBody (drop (snd (decodeRune (c # cs))) (c # cs))
      else take (snd (decodeRune (c # cs))) (c # cs)
             @ appendBody (drop (snd (decodeRune (c # cs))) (c # cs)))"
  by pat_completeness auto
termination
proof (relation "measure length", goal_cases)
  case 1
  show ?case by simp
next
  case (4 c cs)
  have "1 \<le> snd (decodeRune (c # cs))"
    by (auto simp: Let_def split: list.splits)
  then show ?case by simp
next
  case (5 c cs)
  have "1 \<le> snd (decodeRune (c # cs))"
    by (auto simp: Let_def split: list.splits)
  then show ?case by simp
qed simp_all

definition appendString :: "string \<Rightarrow> string" where
  "appendString s = CHR 0x22 # appendBody s @ [CHR 0x22]"

text \<open>
  \<open>getu4\<close> reads the four hexadecimal digits of an escape \<open>\u\<close> (\<open>-1\<close> when there is
  none), \<open>IsSurrogate\<close> and \<open>utf16DecodeRune\<close> are those of \<open>unicode/utf16\<close>.
  \<open>unquoteBody\<close> is the loop of \<open>unquoteBytes\<close> between the quotes: escapes are
  decoded, a quote or a control character is refused, and every other rune is written
  again by \<open>EncodeRune\<close>, a byte that starts no valid encoding as U+FFFD. (The library
  first scans for the characters that need this loop and returns the bytes as they are
  when there is none, which is what the loop returns for them.)
\<close>

definition hexValue :: "char \<Rightarrow> int option" where
  "hexValue c =
     (if 0x30 \<le> byte c \<and> byte c \<le> 0x39 then Some (byte c - 0x30)
      else if 0x61 \<le> byte c \<and> byte c \<le> 0x66 then Some (byte c - 0x61 + 10)
      else if 0x41 \<le> byte c \<and> byte c \<le> 0x46 then Some (byte c - 0x41 + 10)
      else None)"

fun getu4 :: "string \<Rightarrow> int" where
  "getu4 (b0 # b1 # h0 # h1 # h2 # h3 # rest) =
     (if b0 = CHR 0x5C \<and> b1 = CHR ''u'' then
        (case hexValue h0 of None \<Rightarrow> - 1 | Some x0 \<Rightarrow>
         case hexValue h1 of None \<Rightarrow> - 1 | Some x1 \<Rightarrow>
         case hexValue h2 of None \<Rightarrow> - 1 | Some x2 \<Rightarrow>
         case hexValue h3 of None \<Rightarrow> - 1 | Some x3 \<Rightarrow> ((x0 * 16 + x1) * 16 + x2) * 16 + x3)
      else - 1)"
| "getu4 s = - 1"

definition IsSurrogate :: "int \<Rightarrow> bool" where
  "IsSurrogate r = (0xD800 \<le> r \<and> r < 0xE000)"

definition utf16DecodeRune :: "int \<Rightarrow> int \<Rightarrow> int" where
  "utf16DecodeRune r1 r2 =
     (if 0xD800 \<le> r1 \<and> r1 < 0xDC00 \<and> 0xDC00 \<le> r2 \<and> r2 < 0xE000
      then (r1 - 0xD800) * 1024 + (r2 - 0xDC00) + 0x10000
      else runeError)"

function unquoteBody :: "string \<Rightarrow> string option" where
  "unquoteBody [] = Some []"
| "unquoteBody (c # cs) =
     (if c = CHR 0x5C then
        (case cs of
           [] \<Rightarrow> None
         | e # rest \<Rightarrow>
             if e = CHR 0x22 \<or> e = CHR 0x5C \<or> e = CHR ''/'' \<or> e = CHR 0x27
             then map_option ((#) e) (unquoteBody rest)
             else if e = CHR ''b'' then map_option ((#) (CHR 0x08)) (unquoteBody rest)
             else if e = CHR ''f'' then map_option ((#) (CHR 0x0C)) (unquoteBody rest)
             else if e = CHR ''n'' then map_option ((#) (CHR 0x0A)) (unquoteBody rest)
             else if e = CHR ''r'' then map_option ((#) (CHR 0x0D)) (unquoteBody rest)
             else if e = CHR ''t'' then map_option ((#) (CHR 0x09)) (unquoteBody rest)
             else if e = CHR ''u'' then
               (if getu4 (c # cs) < 0 then None
                else if IsSurrogate (getu4 (c # cs)) then
                  (if utf16DecodeRune (getu4 (c # cs)) (getu4 (drop 6 (c # cs))) \<noteq> runeError
                   then map_option
                          ((@) (EncodeRune
                                  (utf16DecodeRune (getu4 (c # cs)) (getu4 (drop 6 (c # cs))))))
                          (unquoteBody (drop 12 (c # cs)))
                   else map_option ((@) (EncodeRune runeError)) (unquoteBody (drop 6 (c # cs))))
                else map_option ((@) (EncodeRune (getu4 (c # cs)))) (unquoteBody (drop 6 (c # cs))))
             else None)
      else if c = CHR 0x22 \<or> byte c < 0x20 then None
      else if byte c < 0x80 then map_option ((#) c) (unquoteBody cs)
      else map_option ((@) (EncodeRune (fst (decodeRune (c # cs)))))
             (unquoteBody (drop (snd (decodeRune (c # cs))) (c # cs))))"
  by pat_completeness auto
termination
proof (relation "measure length", goal_cases)
  case 1
  show ?case by simp
next
  case (12 c cs)
  have "1 \<le> snd (decodeRune (c # cs))"
    by (auto simp: Let_def split: list.splits)
  then show ?case by simp
qed simp_all

definition unquote :: "string \<Rightarrow> string option" where
  "unquote s =
     (if length s < 2 \<or> hd s \<noteq> CHR 0x22 \<or> last s \<noteq> CHR 0x22 then None
      else unquoteBody (butlast (tl s)))"

section \<open>The stored document\<close>

text \<open>
  \<open>meta.json\<close> as \<open>json.MarshalIndent\<close> writes it: the fields of the task in the
  order of the struct, under fixed keys and a fixed layout, the numbers, booleans, times
  and statuses in their one rendering, and every string as its JSON literal. The stored
  document is written here as a task whose strings are those literals: two documents are
  the same bytes exactly when they are the same in this form. \<open>jsonCodec\<close> writes the
  literals with \<open>appendString\<close> and reads them with \<open>unquote\<close>.
\<close>

definition marshalPage :: "PageResult \<Rightarrow> PageResult" where
  "marshalPage p =
     p\<lparr>Page_ID := appendString (Page_ID p),
       ImagePath := appendString (ImagePath p), ImageURL := appendString (ImageURL p),
       TextPath := appendString (TextPath p), TextURL := appendString (TextURL p),
       SourceText := appendString (SourceText p),
       Translation := appendString (Translation p),
       Error := appendString (Error p)\<rparr>"

definition marshalProvider :: "ProviderInfo \<Rightarrow> ProviderInfo" where
  "marshalProvider v =
     v\<lparr>Type := appendString (Type v), BaseURL := appendString (BaseURL v),
       Model := appendString (Model v)\<rparr>"

definition marshalTask :: "Task \<Rightarrow> Task" where
  "marshalTask t =
     t\<lparr>ID := appendString (ID t), FileName := appendString (FileName t),
       OriginalPath := appendString (OriginalPath t),
       CombinedTxtPath := appendString (CombinedTxtPath t),
       CombinedTxtURL := appendString (CombinedTxtURL t),
       CombinedPDFPath := appendString (CombinedPDFPath t),
       CombinedPDFURL := appendString (CombinedPDFURL t),
       FormattedTxtPath := appendString (FormattedTxtPath t),
       FormattedTxtURL := appendString (FormattedTxtURL t),
       FormattedPDFPath := appendString (FormattedPDFPath t),
       FormattedPDFURL := appendString (FormattedPDFURL t),
       Pages := map marshalPage (Pages t),
       Provider := marshalProvider (Provider t)\<rparr>"

definition unmarshalPage :: "PageResult \<Rightarrow> PageResult option" where
  "unmarshalPage p =
     Option.bind (unquote (Page_ID p)) (\<lambda>x0.
     Option.bind (unquote (ImagePath p)) (\<lambda>x1.
     Option.bind (unquote (ImageURL p)) (\<lambda>x2.
     Option.bind (unquote (TextPath p)) (\<lambda>x3.
     Option.bind (unquote (TextURL p)) (\<lambda>x4.
     Option.bind (unquote (SourceText p)) (\<lambda>x5.
     Option.bind (unquote (Translation p)) (\<lambda>x6.
     Option.bind (unquote (Error p)) (\<lambda>x7.
     Some (p\<lparr>Page_ID := x0, ImagePath := x1, ImageURL := x2, TextPath := x3,
           TextURL := x4, SourceText := x5, Translation := x6, Error := x7\<rparr>)))))))))"

definition unmarshalProvider :: "ProviderInfo \<Rightarrow> ProviderInfo option" where
  "unmarshalProvider v =
     Option.bind (unquote (Type v)) (\<lambda>x0.
     Option.bind (unquote (BaseURL v)) (\<lambda>x1.
     Option.bind (unquote (Model v)) (\<lambda>x2.
     Some (v\<lparr>Type := x0, BaseURL := x1, Model := x2\<rparr>))))"

definition unmarshalTask :: "Task \<Rightarrow> Task option" where
  "unmarshalTask t =
     Option.bind (unquote (ID t)) (\<lambda>x0.
     Option.bind (unquote (FileName t)) (\<lambda>x1.
     Option.bind (unquote (OriginalPath t)) (\<lambda>x2.
     Option.bind (unquote (CombinedTxtPath t)) (\<lambda>x3.
     Option.bind (unquote (CombinedTxtURL t)) (\<lambda>x4.
     Option.bind (unquote (CombinedPDFPath t)) (\<lambda>x5.
     Option.bind (unquote (CombinedPDFURL t)) (\<lambda>x6.
     Option.bind (unquote (FormattedTxtPath t)) (\<lambda>x7.
     Option.bind (unquote (FormattedTxtURL t)) (\<lambda>x8.
     Option.bind (unquote (FormattedPDFPath t)) (\<lambda>x9.
     Option.bind (unquote (FormattedPDFURL t)) (\<lambda>x10.
     Option.bind (those (map unmarshalPage (Pages t))) (\<lambda>pages.
     Option.bind (unmarshalProvider (Provider t)) (\<lambda>provider.
     Some (t\<lparr>ID := x0, FileName := x1, OriginalPath := x2,
           CombinedTxtPath := x3, CombinedTxtURL := x4, CombinedPDFPath := x5,
           CombinedPDFURL := x6, FormattedTxtPath := x7, FormattedTxtURL := x8,
           FormattedPDFPath := x9, FormattedPDFURL := x10, Pages := pages,
           Provider := provider\<rparr>))))))))))))))"

definition jsonCodec :: "Task codec" where
  "jsonCodec = \<lparr> marshal = marshalTask, unmarshal = unmarshalTask \<rparr>"

text \<open>
  A task with every string read once as UTF-8 and written again (\<open>reencoded\<close>), and
  the tasks whose strings are all valid UTF-8.
\<close>

definition reencodedPage :: "PageResult \<Rightarrow> PageResult" where
  "reencodedPage p =
     p\<lparr>Page_ID := reencoded (Page_ID p), ImagePath := reencoded (ImagePath p),
       ImageURL := reencoded (ImageURL p), TextPath := reencoded (TextPath p),
       TextURL := reencoded (TextURL p), SourceText := reencoded (SourceText p),
       Translation := reencoded (Translation p), Error := reencoded (Error p)\<rparr>"

definition reencodedProvider :: "ProviderInfo \<Rightarrow> ProviderInfo" where
  "reencodedProvider v =
     v\<lparr>Type := reencoded (Type v), BaseURL := reencoded (BaseURL v),
       Model := reencoded (Model v)\<rparr>"

definition reencodedTask :: "Task \<Rightarrow> Task" where
  "reencodedTask t =
     t\<lparr>ID := reencoded (ID t), FileName := reencoded (FileName t),
       OriginalPath := reencoded (OriginalPath t),
       CombinedTxtPath := reencoded (CombinedTxtPath t),
       CombinedTxtURL := reencoded (CombinedTxtURL t),
       CombinedPDFPath := reencoded (CombinedPDFPath t),
       CombinedPDFURL := reencoded (CombinedPDFURL t),
       FormattedTxtPath := reencoded (FormattedTxtPath t),
       FormattedTxtURL := reencoded (FormattedTxtURL t),
       FormattedPDFPath := reencoded (FormattedPDFPath t),
       FormattedPDFURL := reencoded (FormattedPDFURL t),
       Pages := map reencodedPage (Pages t),
       Provider := reencodedProvider (Provider t)\<rparr>"

definition validPage :: "PageResult \<Rightarrow> bool" where
  "validPage p =
     (validUTF8 (Page_ID p) \<and> validUTF8 (ImagePath p) \<and> validUTF8 (ImageURL p) \<and>
      validUTF8 (TextPath p) \<and> validUTF8 (TextURL p) \<and> validUTF8 (SourceText p) \<and>
      validUTF8 (Translation p) \<and> validUTF8 (Error p))"

definition validProvider :: "ProviderInfo \<Rightarrow> bool" where
  "validProvider v =
     (validUTF8 (Type v) \<and> validUTF8 (BaseURL v) \<and> validUTF8 (Model v))"

definition validTask :: "Task \<Rightarrow> bool" where
  "validTask t =
     (validUTF8 (ID t) \<and> validUTF8 (FileName t) \<and> validUTF8 (OriginalPath t) \<and>
      validUTF8 (CombinedTxtPath t) \<and> validUTF8 (CombinedTxtURL t) \<and>
      validUTF8 (CombinedPDFPath t) \<and> validUTF8 (CombinedPDFURL t) \<and>
      validUTF8 (FormattedTxtPath t) \<and> validUTF8 (FormattedTxtURL t) \<and>
      validUTF8 (FormattedPDFPath t) \<and> validUTF8 (FormattedPDFURL t) \<and>
      list_all validPage (Pages t) \<and> validProvider (Provider t))"

section \<open>The page worker pool, one write at a time\<close>

text \<open>
  In \<open>translateTaskPages\<close> the workers are goroutines over the one task in memory.
  \<open>translateSinglePage\<close> writes the fields of its page one after the other with no lock
  held, and \<open>saveTask\<close> marshals the whole task, the pages of the other workers
  included, behind the service mutex. What can interleave is therefore one field write,
  one file operation, or one save.

  \<open>pageWrites\<close> is the sequence of these steps in one call of \<open>translateSinglePage\<close>
  (with \<open>mergeOnSave = false\<close>, as the pool calls it), for what the call meets. The test
  \<open>page.HasText && page.Translation != ""\<close> reads two fields that the call has just
  written and that no other worker writes; it is decided on the values written.
  \<open>applyWrite\<close> is the effect of one step on the shared task and the disk; the text
  file is written from the fields of the page as they are in memory at that moment.
\<close>

datatype action =
    SetHasText bool
  | SetSourceText string
  | SetTranslation string
  | SetError string
  | SetTextURL string
  | SetStatus PageStatus
  | SetUpdatedAt Time
  | WriteTextFile
  | RemoveTextFile
  | SaveTask save_io

definition pageWrites :: "strings \<Rightarrow> page_io \<Rightarrow> action list" where
  "pageWrites L io =
     (case translated io of
        Inl err \<Rightarrow>
          [SetStatus PageStatusError, SetError err, SetUpdatedAt (page_now io),
           SaveTask (page_save io)]
      | Inr result \<Rightarrow>
          [SetHasText (Result_HasText result),
           SetSourceText (TrimSpace L (Result_SourceText result)),
           SetTranslation (TrimSpace L (TranslatedText result)),
           SetError ''''] @
          (if Result_HasText result \<and> TrimSpace L (TranslatedText result) \<noteq> '''' then
             (case write_txt io of
                Some e \<Rightarrow>
                  [SetStatus PageStatusError, SetError (writeTxtFailed @ e),
                   SetUpdatedAt (page_now io), SaveTask (page_save io)]
              | None \<Rightarrow>
                  [WriteTextFile, SetTextURL (text_url io), SetStatus PageStatusCompleted,
                   SetUpdatedAt (page_now io), SaveTask (page_save io)])
           else
             [RemoveTextFile, SetTextURL '''', SetStatus PageStatusCompleted,
              SetUpdatedAt (page_now io), SaveTask (page_save io)]))"

fun applyWrite ::
  "'b codec \<Rightarrow> TaskService \<Rightarrow> nat \<Rightarrow> action \<Rightarrow> Task \<times> 'b disk \<Rightarrow> Task \<times> 'b disk" where
  "applyWrite C s idx (SetHasText b) (task, d) =
     (setPage task idx ((Pages task ! idx)\<lparr>HasText := b\<rparr>), d)"
| "applyWrite C s idx (SetSourceText x) (task, d) =
     (setPage task idx ((Pages task ! idx)\<lparr>SourceText := x\<rparr>), d)"
| "applyWrite C s idx (SetTranslation x) (task, d) =
     (setPage task idx ((Pages task ! idx)\<lparr>Translation := x\<rparr>), d)"
| "applyWrite C s idx (SetError x) (task, d) =
     (setPage task idx ((Pages task ! idx)\<lparr>Error := x\<rparr>), d)"
| "applyWrite C s idx (SetTextURL x) (task, d) =
     (setPage task idx ((Pages task ! idx)\<lparr>TextURL := x\<rparr>), d)"
| "applyWrite C s idx (SetStatus x) (task, d) =
     (setPage task idx ((Pages task ! idx)\<lparr>Status := x\<rparr>), d)"
| "applyWrite C s idx (SetUpdatedAt x) (task, d) =
     (setPage task idx ((Pages task ! idx)\<lparr>Page_UpdatedAt := x\<rparr>), d)"
| "applyWrite C s idx WriteTextFile (task, d) =
     (task, d\<lparr>texts := (texts d)(TextPath (Pages task ! idx) \<mapsto> Translation (Pages task ! idx))\<rparr>)"
| "applyWrite C s idx RemoveTextFile (task, d) =
     (task, d\<lparr>texts := (texts d)(TextPath (Pages task ! idx) := None)\<rparr>)"
| "applyWrite C s idx (SaveTask io) (task, d) =
     (case saveTask C s io task d of (e, task', d') \<Rightarrow> (task', d'))"

text \<open>
  The pool: the task in memory, the disk, the pages not yet received, and for every
  worker the page it is at with the steps it has still to do (none when it waits for a
  page). \<open>startPool\<close> starts as many workers as \<open>translateTaskPages\<close> does. An event is
  a worker receiving the next queued page, with what the call for that page meets, or a
  busy worker doing its next step. \<open>poolStep\<close> is \<open>None\<close> for an event that cannot
  happen.
\<close>

record 'b pool =
  pool_mem :: Task
  pool_disk :: "'b disk"
  pool_queue :: "nat list"
  pool_workers :: "(nat \<times> action list) list"

definition workerCount :: "TaskService \<Rightarrow> int \<Rightarrow> nat \<Rightarrow> int" where
  "workerCount s batchLimit n =
     (let w0 = maxWorkers s;
          w1 = (if batchLimit > 0 \<and> w0 > batchLimit then batchLimit else w0)
      in if w1 > int n then int n else w1)"

definition startPool :: "TaskService \<Rightarrow> int \<Rightarrow> Task \<Rightarrow> nat list \<Rightarrow> 'b disk \<Rightarrow> 'b pool" where
  "startPool s batchLimit task pages d =
     \<lparr> pool_mem = task, pool_disk = d, pool_queue = pages,
       pool_workers = replicate (nat (workerCount s batchLimit (length pages))) (0, []) \<rparr>"

datatype event = Receive nat page_io | Step nat

fun poolStep :: "strings \<Rightarrow> 'b codec \<Rightarrow> TaskService \<Rightarrow> event \<Rightarrow> 'b pool \<Rightarrow> 'b pool option" where
  "poolStep L C s (Receive k io) st =
     (if k < length (pool_workers st) \<and> snd (pool_workers st ! k) = [] \<and> pool_queue st \<noteq> []
      then Some (st\<lparr>pool_queue := tl (pool_queue st),
                    pool_workers := (pool_workers st)[k := (hd (pool_queue st), pageWrites L io)]\<rparr>)
      else None)"
| "poolStep L C s (Step k) st =
     (if k < length (pool_workers st) then
        (case pool_workers st ! k of
           (idx, []) \<Rightarrow> None
         | (idx, w # ws) \<Rightarrow>
             (case applyWrite C s idx w (pool_mem st, pool_disk st) of
                (task', d') \<Rightarrow>
                  Some (st\<lparr>pool_mem := task', pool_disk := d',
                           pool_workers := (pool_workers st)[k := (idx, ws)]\<rparr>)))
      else None)"

fun runEvents :: "strings \<Rightarrow> 'b codec \<Rightarrow> TaskService \<Rightarrow> event list \<Rightarrow> 'b pool \<Rightarrow> 'b pool option" where
  "runEvents L C s [] st = Some st"
| "runEvents L C s (e # es) st =
     (case poolStep L C s e st of None \<Rightarrow> None | Some st' \<Rightarrow> runEvents L C s es st')"

section \<open>The formatting run\<close>

text \<open>\<open>strings.HasPrefix\<close>, \<open>strings.Contains\<close> and \<open>strings.Join\<close> on bytes.\<close>

fun HasPrefix :: "string \<Rightarrow> string \<Rightarrow> bool" where
  "HasPrefix s [] = True"
| "HasPrefix [] (p # ps) = False"
| "HasPrefix (c # s) (p # ps) = (c = p \<and> HasPrefix s ps)"

fun Contains :: "string \<Rightarrow> string \<Rightarrow> bool" where
  "Contains [] substr = (substr = [])"
| "Contains (c # s) substr = (HasPrefix (c # s) substr \<or> Contains s substr)"

fun Join :: "string list \<Rightarrow> string \<Rightarrow> string" where
  "Join [] sep = []"
| "Join [x] sep = x"
| "Join (x # y # rest) sep = x @ sep @ Join (y # rest) sep"

definition formatterIsRateLimit :: "strings \<Rightarrow> string \<Rightarrow> bool" where
  "formatterIsRateLimit L err =
     (let msg = ToLower L err in
      Contains msg ''429'' \<or> Contains msg ''503'' \<or> Contains msg ''rate limit'' \<or>
      Contains msg ''concurrency'' \<or> Contains msg ''provider_error'')"

text \<open>
  \<open>prepareFormatterChunks\<close>, without the chunk files it writes for the log: no chunk, no
  run.
\<close>

definition prepareFormatterChunks :: "string \<Rightarrow> int \<Rightarrow> error + string list" where
  "prepareFormatterChunks txt chunkSize =
     (let chunkStrings = splitTextChunks txt chunkSize in
      if length chunkStrings = 0 then Inl (ErrSetup ''no text to format'') else Inr chunkStrings)"

text \<open>
  \<open>updateFormattingState\<close>: load, mutate, save, behind the service mutex. The three
  mutations that \<open>FormatTaskLayout\<close> passes to it follow.
\<close>

definition updateFormattingState ::
  "'b codec \<Rightarrow> TaskService \<Rightarrow> save_io \<Rightarrow> string \<Rightarrow> (Task \<Rightarrow> Task) \<Rightarrow> 'b disk \<Rightarrow> error option \<times> 'b disk" where
  "updateFormattingState C s io taskID mutate d =
     (case loadTask C s d taskID of
        Inl e \<Rightarrow> (Some e, d)
      | Inr task \<Rightarrow> (case saveTaskLocked C s io (mutate task) d of (e, task', d') \<Rightarrow> (e, d')))"

definition beginFormatting :: "int \<Rightarrow> Task \<Rightarrow> Task" where
  "beginFormatting totalChunks t =
     t\<lparr>FormattingInProgress := True, FormattingTotalChunks := totalChunks,
       FormattingCompletedChunks := 0\<rparr>"

definition progressFormatting :: "int \<Rightarrow> int \<Rightarrow> Task \<Rightarrow> Task" where
  "progressFormatting totalChunks completed t =
     t\<lparr>FormattingInProgress := True,
       FormattingTotalChunks :=
         (if FormattingTotalChunks t = 0 then totalChunks else FormattingTotalChunks t),
       FormattingCompletedChunks := completed\<rparr>"

definition failFormatting :: "int \<Rightarrow> int \<Rightarrow> Task \<Rightarrow> Task" where
  "failFormatting totalChunks progress t =
     t\<lparr>FormattingInProgress := False,
       FormattingTotalChunks :=
         (if FormattingTotalChunks t = 0 then totalChunks else FormattingTotalChunks t),
       FormattingCompletedChunks := progress\<rparr>"

text \<open>
  The errors a run ends with: a provider's error (its text), the truncation error of a
  chunk (with the chunk's number, from one), an empty assembled text, a failed write of the
  formatted text, a failed load or save of the task.
\<close>

datatype format_error =
    ProviderError string
  | TruncatedOutput nat
  | EmptyOutput
  | WriteFormattedError
  | StoreError error

text \<open>
  What the chunk workers of one run share: the disk, the concurrency cap
  (\<open>currentLimit\<close>), the first error, whether the run's context is cancelled, the counter
  of completed chunks, the results by chunk index, and, as a trace, each
  \<open>time.Sleep\<close> of a retry with the chunk index and the whole seconds slept.
  \<open>fenv\<close> is what does not change during a run.
\<close>

record 'b frun =
  run_disk :: "'b disk"
  currentLimit :: int
  firstErr :: "format_error option"
  cancelled :: bool
  completedChunks :: int
  results :: "string list"
  slept :: "(nat \<times> nat) list"

record 'b fenv =
  f_strings :: strings
  f_codec :: "'b codec"
  f_service :: TaskService
  f_taskID :: string
  f_chunks :: "string list"

definition setError :: "format_error \<Rightarrow> 'b frun \<Rightarrow> 'b frun" where
  "setError err st =
     (if firstErr st = None then st\<lparr>firstErr := Some err, cancelled := True\<rparr> else st)"

text \<open>
  A worker is in its retry loop with a number of retries behind it, or has its chunk's
  result and the counter value to persist, or has returned. One step of a worker is one
  pass through the loop of \<open>processChunk\<close> with a slot acquired (the wait for a slot is
  scheduling and not a step), or the persisting of its progress. \<open>step_io\<close> is what the
  step meets: what \<open>Format\<close> returns (\<open>Inl\<close> the text of its error) and the save.
\<close>

datatype worker = Running nat | Persisting int | Done

record step_io =
  formatted :: "string + string"
  step_save :: save_io

fun workerStep :: "'b fenv \<Rightarrow> step_io \<Rightarrow> nat \<Rightarrow> worker \<Rightarrow> 'b frun \<Rightarrow> worker \<times> 'b frun" where
  "workerStep E io idx (Running retries) st =
     (if cancelled st then (Done, st)
      else
        (case formatted io of
           Inl err \<Rightarrow>
             if formatterIsRateLimit (f_strings E) err \<and> retries < 3 then
               (Running (retries + 1),
                st\<lparr>currentLimit := (if currentLimit st > 1 then 1 else currentLimit st),
                   slept := slept st @ [(idx, retries + 1)]\<rparr>)
             else (Done, setError (ProviderError err) st)
         | Inr result \<Rightarrow>
             (let clean = TrimSpace (f_strings E) result;
                  srcLen = runeCount (f_chunks E ! idx)
              in if srcLen > 0 \<and> runeCount clean < srcLen div 2
                 then (Done, setError (TruncatedOutput (idx + 1)) st)
                 else (Persisting (completedChunks st + 1),
                       st\<lparr>completedChunks := completedChunks st + 1,
                          results := (results st)[idx := clean]\<rparr>))))"
| "workerStep E io idx (Persisting completed) st =
     (Done,
      st\<lparr>run_disk :=
           snd (updateFormattingState (f_codec E) (f_service E) (step_save io) (f_taskID E)
                  (progressFormatting (int (length (f_chunks E))) completed) (run_disk st))\<rparr>)"
| "workerStep E io idx Done st = (Done, st)"

text \<open>
  \<open>processChunk\<close>: one worker run to its return with nothing in between. \<open>fmt k\<close> is
  what \<open>Format\<close> returns at the call after \<open>k\<close> retries.
\<close>

definition workerMeasure :: "worker \<Rightarrow> nat" where
  "workerMeasure w =
     (case w of Running retries \<Rightarrow> 5 - retries + 2 | Persisting c \<Rightarrow> 1 | Done \<Rightarrow> 0)"

function processChunk ::
  "'b fenv \<Rightarrow> (nat \<Rightarrow> string + string) \<Rightarrow> save_io \<Rightarrow> nat \<Rightarrow> worker \<Rightarrow> 'b frun \<Rightarrow> 'b frun" where
  "processChunk E fmt psave idx Done st = st"
| "processChunk E fmt psave idx (Persisting completed) st =
     snd (workerStep E \<lparr> formatted = fmt 0, step_save = psave \<rparr> idx (Persisting completed) st)"
| "processChunk E fmt psave idx (Running retries) st =
     (case workerStep E \<lparr> formatted = fmt retries, step_save = psave \<rparr> idx (Running retries) st of
        (w', st') \<Rightarrow> processChunk E fmt psave idx w' st')"
  by pat_completeness auto
termination
  by (relation "measure (\<lambda>(E, fmt, psave, idx, w, st). workerMeasure w)")
    (auto simp: workerMeasure_def Let_def split: if_splits sum.splits)

text \<open>
  The start of a run in \<open>FormatTaskLayout\<close>, once the chunks are prepared: the progress
  fields are reset in the store, and one worker per chunk is started under a cap of
  \<open>min(3, chunks)\<close>. A failure to store the reset ends the call before any worker starts.
\<close>

definition startRun :: "'b fenv \<Rightarrow> save_io \<Rightarrow> 'b disk \<Rightarrow> error + worker list \<times> 'b frun" where
  "startRun E io d =
     (let totalChunks = length (f_chunks E) in
      case updateFormattingState (f_codec E) (f_service E) io (f_taskID E)
             (beginFormatting (int totalChunks)) d of
        (Some e, d') \<Rightarrow> Inl e
      | (None, d') \<Rightarrow>
          Inr (replicate totalChunks (Running 0),
               \<lparr> run_disk = d',
                 currentLimit = (if int totalChunks < 3 then int totalChunks else 3),
                 firstErr = None, cancelled = False, completedChunks = 0,
                 results = replicate totalChunks '''', slept = [] \<rparr>))"


text \<open>
  After \<open>wg.Wait()\<close>: the first error ends the call; otherwise the results are joined and
  written, the task is reloaded, marked as formatted and saved. On every path but the
  successful one the deferred function stores the end of the run (when there was a chunk).
\<close>

record finish_io =
  write_formatted :: bool
  formatted_path :: string
  formatted_url :: string
  final_save :: save_io
  deferred_save :: save_io

definition deferredUpdate :: "'b fenv \<Rightarrow> finish_io \<Rightarrow> 'b frun \<Rightarrow> 'b disk \<Rightarrow> 'b disk" where
  "deferredUpdate E io st d =
     (if length (f_chunks E) = 0 then d
      else snd (updateFormattingState (f_codec E) (f_service E) (deferred_save io) (f_taskID E)
                  (failFormatting (int (length (f_chunks E))) (completedChunks st)) d))"

definition markFormatted :: "'b fenv \<Rightarrow> finish_io \<Rightarrow> Task \<Rightarrow> Task" where
  "markFormatted E io task =
     task\<lparr>FormattedByAI := True, FormattedTxtPath := formatted_path io,
          FormattedTxtURL := formatted_url io, FormattingInProgress := False,
          FormattingTotalChunks := int (length (f_chunks E)),
          FormattingCompletedChunks := int (length (f_chunks E))\<rparr>"

definition finishRun :: "'b fenv \<Rightarrow> finish_io \<Rightarrow> 'b frun \<Rightarrow> (format_error + Task) \<times> 'b disk" where
  "finishRun E io st =
     (case firstErr st of
        Some e \<Rightarrow> (Inl e, deferredUpdate E io st (run_disk st))
      | None \<Rightarrow>
          (let formattedText = TrimSpace (f_strings E) (Join (results st) [CHR 0x0A, CHR 0x0A]) in
           if formattedText = '''' then (Inl EmptyOutput, deferredUpdate E io st (run_disk st))
           else if \<not> write_formatted io
           then (Inl WriteFormattedError, deferredUpdate E io st (run_disk st))
           else
             (let d1 = (run_disk st)\<lparr>texts := (texts (run_disk st))(formatted_path io \<mapsto> formattedText)\<rparr> in
              case loadTask (f_codec E) (f_service E) d1 (f_taskID E) of
                Inl e \<Rightarrow> (Inl (StoreError e), deferredUpdate E io st d1)
              | Inr task \<Rightarrow>
                  (case saveTask (f_codec E) (f_service E) (final_save io) (markFormatted E io task) d1 of
                     (Some e, task', d2) \<Rightarrow> (Inl (StoreError e), deferredUpdate E io st d2)
                   | (None, task', d2) \<Rightarrow> (Inr task', d2)))))"

section \<open>What a run keeps true\<close>




section \<open>Example data\<close>

text \<open>
  A service, a store that keeps task values as they are, and a five-page upload: the
  inputs at which the theorems below are run.
\<close>

definition exampleService :: TaskService where
  "exampleService = NewTaskService ''data'' ''/pdf-data'' '''' 4"

definition valueCodec :: "Task codec" where
  "valueCodec = \<lparr> marshal = (\<lambda>t. t), unmarshal = Some \<rparr>"

definition emptyDisk :: "Task disk" where
  "emptyDisk = \<lparr> files = Map.empty, texts = Map.empty \<rparr>"

definition exampleRendered :: "string \<Rightarrow> rendered_page" where
  "exampleRendered n =
     \<lparr> new_page_id = ''page-'' @ n, image_path = ''data/t1/pages/page-'' @ n @ ''.png'',
       image_url = ''/pdf-data/t1/pages/page-'' @ n @ ''.png'',
       text_path = ''data/t1/pages/page-'' @ n @ ''.txt'' \<rparr>"

definition exampleProvider :: ProviderInfo where
  "exampleProvider = \<lparr> Type = ''openai'', BaseURL = ''https://api.openai.com/v1'',
                       Model = ''m'', MaxTokens = 8192 \<rparr>"

definition exampleCreate :: create_io where
  "exampleCreate =
     \<lparr> prepared = Inr exampleProvider, new_task_id = ''t1'', safe_name = ''a.pdf'',
       source_path = ''data/t1/source.pdf'',
       rendered = map exampleRendered [''001'', ''002'', ''003'', ''004'', ''005''],
       create_now = 10, mark_now = 11,
       create_save = \<lparr> save_now = 12, save_outcome = SaveOK \<rparr> \<rparr>"

definition firstThree :: TranslationSettings where
  "firstThree = \<lparr> RangeMode = ''custom'', RangeCustom = 3, RangeStart = 0, RangeEnd = 0,
                  BatchLimit = 0 \<rparr>"

definition createdExample :: "(error + Task \<times> nat list) \<times> Task disk" where
  "createdExample = CreateTask asciiStrings valueCodec exampleService exampleCreate firstThree emptyDisk"

definition createdTask :: Task where
  "createdTask = (case fst createdExample of Inr (task, sel) \<Rightarrow> task | Inl e \<Rightarrow> newTask exampleCreate exampleProvider)"

definition createdQueue :: "nat list" where
  "createdQueue = (case fst createdExample of Inr (task, sel) \<Rightarrow> sel | Inl e \<Rightarrow> [])"

text \<open>
  Page 1 of the created task is translated by the pool, and later a retranslation of the
  same page fails at the provider.
\<close>

definition helloIO :: page_io where
  "helloIO =
     \<lparr> translated = Inr \<lparr> Result_HasText = True, Result_SourceText = ''hello'',
                           TranslatedText = '' bonjour '' \<rparr>,
       page_now = 20, write_txt = None, text_url = ''/pdf-data/t1/pages/page-001.txt'',
       page_save = \<lparr> save_now = 21, save_outcome = SaveOK \<rparr> \<rparr>"

definition failingIO :: page_io where
  "failingIO =
     \<lparr> translated = Inl ''OpenAI: 500 Internal Server Error'',
       page_now = 30, write_txt = None, text_url = ''/pdf-data/t1/pages/page-001.txt'',
       page_save = \<lparr> save_now = 31, save_outcome = SaveOK \<rparr> \<rparr>"

definition translatedOnce :: "error option \<times> Task \<times> Task disk" where
  "translatedOnce =
     translateSinglePage asciiStrings valueCodec exampleService helloIO createdTask 0 False
       (snd createdExample)"

definition onceTask :: Task where
  "onceTask = fst (snd translatedOnce)"

definition onceDisk :: "Task disk" where
  "onceDisk = snd (snd translatedOnce)"

definition failedAfter :: "error option \<times> Task \<times> Task disk" where
  "failedAfter =
     translateSinglePage asciiStrings valueCodec exampleService failingIO onceTask 0 True onceDisk"








text \<open>A text with two- and three-byte runes and a line break, as bytes of UTF-8.\<close>

definition exampleText :: string where
  "exampleText =
     [CHR ''h'', CHR 0xC3, CHR 0xA9, CHR 0x0A, CHR 0xE6, CHR 0x8E, CHR 0x92, CHR 0xE7, CHR 0x89,
      CHR 0x88, CHR ''o'', CHR ''k'']"

text \<open>
  A formatting run over four chunks of the example task, started on the disk left by the
  pool's first page.
\<close>

definition formatEnv :: "Task fenv" where
  "formatEnv =
     \<lparr> f_strings = asciiStrings, f_codec = valueCodec, f_service = exampleService,
       f_taskID = ''t1'',
       f_chunks = [''bonjour le monde'', ''deuxieme morceau'', ''troisieme'', ''fin''] \<rparr>"

definition idleRun :: "Task frun" where
  "idleRun =
     \<lparr> run_disk = emptyDisk, currentLimit = 0, firstErr = None, cancelled = False,
       completedChunks = 0, results = [], slept = [] \<rparr>"

definition formatStart :: "error + worker list \<times> Task frun" where
  "formatStart = startRun formatEnv \<lparr> save_now = 50, save_outcome = SaveOK \<rparr> onceDisk"

definition startedRun :: "Task frun" where
  "startedRun = (case formatStart of Inr (ws, st) \<Rightarrow> st | Inl e \<Rightarrow> idleRun)"

definition progressSave :: save_io where
  "progressSave = \<lparr> save_now = 51, save_outcome = SaveOK \<rparr>"

text \<open>A chunk's output of one rune, and a provider's rate-limit error.\<close>

definition shortOutput :: step_io where
  "shortOutput = \<lparr> formatted = Inr ''x'', step_save = progressSave \<rparr>"

definition rateLimited :: step_io where
  "rateLimited = \<lparr> formatted = Inl ''OpenAI Formatter: 429 Too Many Requests'',
                   step_save = progressSave \<rparr>"
















text \<open>
  The same upload stored as JSON, and an upload whose file name is not UTF-8: the two
  bytes of a Chinese character in GBK, followed by \<open>.pdf\<close>. Each stored task is loaded
  and saved back at the time it was last saved.
\<close>

definition jsonCreated :: "(error + Task \<times> nat list) \<times> Task disk" where
  "jsonCreated = CreateTask asciiStrings jsonCodec exampleService exampleCreate firstThree emptyDisk"

definition jsonTask :: Task where
  "jsonTask = (case fst jsonCreated of Inr (task, sel) \<Rightarrow> task | Inl e \<Rightarrow> newTask exampleCreate exampleProvider)"

definition gbkCreate :: create_io where
  "gbkCreate = exampleCreate\<lparr>safe_name := [CHR 0xD6, CHR 0xD0, CHR ''.'', CHR ''p'', CHR ''d'', CHR ''f'']\<rparr>"

definition gbkCreated :: "(error + Task \<times> nat list) \<times> Task disk" where
  "gbkCreated = CreateTask asciiStrings jsonCodec exampleService gbkCreate firstThree emptyDisk"

definition sameClock :: save_io where
  "sameClock = \<lparr> save_now = 12, save_outcome = SaveOK \<rparr>"

definition jsonResaved :: "error option \<times> Task disk" where
  "jsonResaved = saveLoaded jsonCodec exampleService sameClock ''t1'' (snd jsonCreated)"

definition gbkResaved :: "error option \<times> Task disk" where
  "gbkResaved = saveLoaded jsonCodec exampleService sameClock ''t1'' (snd gbkCreated)"

text \<open>The file name and the time stamp in the stored document of the example task.\<close>

definition storedFileName :: "Task disk \<Rightarrow> string option" where
  "storedFileName d = map_option FileName (files d (metaPath exampleService ''t1''))"

definition storedUpdatedAt :: "Task disk \<Rightarrow> Time option" where
  "storedUpdatedAt d = map_option UpdatedAt (files d (metaPath exampleService ''t1''))"

text \<open>
  The pool of the example task stored as JSON: three pages are queued, three workers
  run. The first worker receives page 1, which is translated; the second receives page 2,
  for which the provider fails. The second worker writes the status of its page; the first
  then runs its nine writes to the end, the last of which is its save; at last the second
  worker runs its remaining three writes.
\<close>

definition examplePool :: "Task pool" where
  "examplePool =
     (case fst jsonCreated of
        Inr (task, sel) \<Rightarrow> startPool exampleService (BatchLimit firstThree) task sel (snd jsonCreated)
      | Inl e \<Rightarrow> startPool exampleService 0 jsonTask [] emptyDisk)"

definition raceSchedule :: "event list" where
  "raceSchedule = [Receive 0 helloIO, Receive 1 failingIO, Step 1] @ replicate 9 (Step 0)"

definition racedPool :: "Task pool option" where
  "racedPool = runEvents asciiStrings jsonCodec exampleService raceSchedule examplePool"

definition settledPool :: "Task pool option" where
  "settledPool =
     runEvents asciiStrings jsonCodec exampleService (raceSchedule @ replicate 3 (Step 1)) examplePool"

text \<open>The number, status and error of every page of the stored example task.\<close>

definition storedStatuses :: "Task pool option \<Rightarrow> (int \<times> PageStatus \<times> string) list option" where
  "storedStatuses st =
     (case st of
        None \<Rightarrow> None
      | Some pool \<Rightarrow>
          (case loadTask jsonCodec exampleService (pool_disk pool) ''t1'' of
             Inr task \<Rightarrow> Some (map (\<lambda>p. (PageNumber p, Status p, Error p)) (Pages task))
           | Inl e \<Rightarrow> None))"
section \<open>Facts about the store and the per-page procedure\<close>

lemma Pages_saveTask:
  "saveTask C s io task d = (e, task', d') \<Longrightarrow> Pages task' = Pages task \<and> ID task' = ID task"
  by (auto simp: saveTask_def saveTaskLocked_def Let_def split: save_outcome.splits)

lemma saveTask_persisted:
  assumes "codec_ok C" and "saveTask C s io task d = (None, task', d')"
  shows "loadTask C s d' (ID task) = Inr task'"
  using assms
  by (auto simp: saveTask_def saveTaskLocked_def loadTask_def codec_ok_def Let_def
      split: save_outcome.splits)

lemma codec_ok_valueCodec: "codec_ok valueCodec"
  by (simp add: codec_ok_def valueCodec_def)


lemma saveTask_ok:
  "save_outcome io = SaveOK \<Longrightarrow>
   saveTask C s io task d =
     (None, task\<lparr>UpdatedAt := save_now io\<rparr>,
      d\<lparr>files := ((files d)(metaPath s (ID task) @ ''.tmp'' := None))
                    (metaPath s (ID task) \<mapsto> marshal C (task\<lparr>UpdatedAt := save_now io\<rparr>))\<rparr>)"
  by (simp add: saveTask_def saveTaskLocked_def Let_def)

lemma translateSinglePage_failed:
  "translated io = Inl err \<Longrightarrow>
   translateSinglePage L C s io task idx m d =
     saveTask C s (page_save io) (setPage task idx (failedPage io err (Pages task ! idx))) d"
  by (simp add: translateSinglePage_def failedPage_def)

lemma translateSinglePage_write_failed:
  "translated io = Inr result \<Longrightarrow> Result_HasText result \<Longrightarrow>
   TrimSpace L (TranslatedText result) \<noteq> '''' \<Longrightarrow> write_txt io = Some e \<Longrightarrow>
   translateSinglePage L C s io task idx m d =
     saveTask C s (page_save io)
       (setPage task idx (writeFailedPage L io result e (Pages task ! idx))) d"
  by (simp add: translateSinglePage_def writeFailedPage_def Let_def)







lemma loadTask_texts [simp]: "loadTask C s (d\<lparr>texts := x\<rparr>) taskID = loadTask C s d taskID"
  by (simp add: loadTask_def)

lemma ID_setPage [simp]: "ID (setPage task idx page) = ID task"
  by (simp add: setPage_def)











section \<open>The example run, evaluated\<close>

lemma once_eval:
  "fst translatedOnce = None"
  "length (Pages onceTask) = 5"
  "ID onceTask = ''t1''"
  "HasText (Pages onceTask ! 0)"
  "SourceText (Pages onceTask ! 0) = ''hello''"
  "Translation (Pages onceTask ! 0) = ''bonjour''"
  "Status (Pages onceTask ! 0) = PageStatusCompleted"
  by code_simp+




section \<open>How page results reach the store\<close>




section \<open>Initial page selection and task creation\<close>

lemma set_determineInitialPageSet:
  "set (determineInitialPageSet L T settings) = specInitialPages L T settings"
  unfolding determineInitialPageSet_def specInitialPages_def Let_def
  by (auto simp: min_def max_def)

lemma map_succ_upt: "map (\<lambda>i. int i + 1) [0..<k] = [1..int k]"
proof (induction k)
  case 0
  show ?case by simp
next
  case (Suc k)
  have "[1..int (Suc k)] = [1..int k] @ [int k + 1]"
    using upto_rec2 [of 1 "int (Suc k)"] by (simp add: add.commute)
  with Suc show ?case by simp
qed

lemma PageNumbers_newTask:
  "map PageNumber (Pages (newTask io prov)) = [1..int (length (rendered io))]"
proof -
  have eq: "PageNumber \<circ> newPage now = (\<lambda>i. int i + 1) \<circ> fst" for now
    by (auto simp: fun_eq_iff newPage_def)
  have "map (PageNumber \<circ> newPage now) (enumerate 0 rs) = map (\<lambda>i. int i + 1) (map fst (enumerate 0 rs))" for now rs
    unfolding eq by (simp only: map_map)
  then show ?thesis
    by (simp add: newTask_def map_succ_upt)
qed

lemma PageNumber_markPage: "PageNumber (markPage now sel page) = PageNumber page"
  by (simp add: markPage_def)

lemma newTask_pages_pending:
  "p \<in> set (Pages (newTask io prov)) \<Longrightarrow> Status p = PageStatusPending"
  by (auto simp: newTask_def newPage_def)

lemma CreateTask_pages:
  assumes "CreateTask L C s io settings d = (Inr (task, sel), d')"
  obtains prov where "prepared io = Inr prov"
    and "Pages task = map (markPage (mark_now io) (determineInitialPageSet L (int (length (rendered io))) settings)) (Pages (newTask io prov))"
    and "sel = selectedIndices (determineInitialPageSet L (int (length (rendered io))) settings) (Pages (newTask io prov))"
    and "saveTask C s (create_save io) ((newTask io prov)\<lparr>Pages := map (markPage (mark_now io) (determineInitialPageSet L (int (length (rendered io))) settings)) (Pages (newTask io prov))\<rparr>) d = (None, task, d')"
proof -
  from assms obtain prov where p: "prepared io = Inr prov"
    by (cases "prepared io") (auto simp: CreateTask_def)
  have len: "length (Pages (newTask io prov)) = length (rendered io)"
    by (simp add: newTask_def)
  let ?sel = "determineInitialPageSet L (int (length (rendered io))) settings"
  let ?t = "(newTask io prov)\<lparr>Pages := map (markPage (mark_now io) ?sel) (Pages (newTask io prov))\<rparr>"
  obtain e t2 d2 where sv: "saveTask C s (create_save io) ?t d = (e, t2, d2)"
    by (cases "saveTask C s (create_save io) ?t d") auto
  from assms p sv have "e = None" "t2 = task" "d2 = d'" "sel = selectedIndices ?sel (Pages (newTask io prov))"
    by (auto simp: CreateTask_def Let_def len split: option.splits)
  moreover from Pages_saveTask [OF sv] have "Pages t2 = map (markPage (mark_now io) ?sel) (Pages (newTask io prov))"
    by simp
  ultimately show ?thesis using that [OF p] sv by simp
qed

lemma CreateTask_page_states:
  assumes "CreateTask L C s io settings d = (Inr (task, sel), d')"
    and "p \<in> set (Pages task)"
  shows "if PageNumber p \<in> specInitialPages L (int (length (rendered io))) settings
         then Status p = PageStatusPending
         else Status p = PageStatusCompleted \<and> \<not> HasText p \<and> SourceText p = '''' \<and>
              Translation p = '''' \<and> Error p = ''''"
proof -
  let ?sel = "determineInitialPageSet L (int (length (rendered io))) settings"
  from assms(1) obtain prov where
    pages: "Pages task = map (markPage (mark_now io) ?sel) (Pages (newTask io prov))"
    by (rule CreateTask_pages)
  with assms(2) obtain q where q: "q \<in> set (Pages (newTask io prov))"
    and p: "p = markPage (mark_now io) ?sel q"
    by auto
  have pending: "Status q = PageStatusPending"
    using q by (rule newTask_pages_pending)
  show ?thesis
    using pending
    by (simp add: p markPage_def set_determineInitialPageSet [symmetric])
qed

lemma CreateTask_queue:
  assumes "CreateTask L C s io settings d = (Inr (task, sel), d')"
  shows "set sel = {i. i < length (Pages task) \<and>
                      PageNumber (Pages task ! i) \<in> specInitialPages L (int (length (rendered io))) settings}"
proof -
  let ?sel = "determineInitialPageSet L (int (length (rendered io))) settings"
  from assms obtain prov where
    pages: "Pages task = map (markPage (mark_now io) ?sel) (Pages (newTask io prov))"
    and sel: "sel = selectedIndices ?sel (Pages (newTask io prov))"
    by (rule CreateTask_pages)
  show ?thesis
    by (auto simp: sel pages selectedIndices_def PageNumber_markPage set_determineInitialPageSet)
qed

lemma created_eval:
  "createdExample = (Inr (createdTask, createdQueue), snd createdExample)"
  by (simp add: createdExample_def createdTask_def createdQueue_def CreateTask_def exampleCreate_def Let_def
     saveTask_def saveTaskLocked_def prod_eq_iff)

lemma created_statuses:
  "map PageNumber (Pages createdTask) = [1, 2, 3, 4, 5]"
  "map Status (Pages createdTask) =
     [PageStatusPending, PageStatusPending, PageStatusPending, PageStatusCompleted, PageStatusCompleted]"
  "map Translation (Pages createdTask) = ['''', '''', '''', '''', '''']"
  "map Error (Pages createdTask) = ['''', '''', '''', '''', '''']"
  "createdQueue = [0, 1, 2]"
  "ID createdTask = ''t1''"
  by code_simp+

text \<open>
  C6. The page set that \<open>determineInitialPageSet\<close> computes is the one the specification
  describes (custom limit, start/end range swapped and clamped, otherwise all pages), for
  every page count and all settings. A task that \<open>CreateTask\<close> returns has its pages numbered
  \<open>1..T\<close>; each page outside the selection is Completed with no text, empty translation and
  empty error, each selected page is Pending; the pages handed to the pool are the selected
  ones; and the stored task is the returned one.
\<close>

theorem initial_page_selection:
  "set (determineInitialPageSet L T settings) = specInitialPages L T settings
   \<and> (CreateTask L C s io settings d = (Inr (task, sel), d') \<longrightarrow>
        map PageNumber (Pages task) = [1..int (length (rendered io))]
        \<and> (\<forall>p \<in> set (Pages task).
              if PageNumber p \<in> specInitialPages L (int (length (rendered io))) settings
              then Status p = PageStatusPending
              else Status p = PageStatusCompleted \<and> \<not> HasText p \<and> SourceText p = '''' \<and>
                   Translation p = '''' \<and> Error p = '''')
        \<and> set sel = {i. i < length (Pages task) \<and>
                         PageNumber (Pages task ! i) \<in> specInitialPages L (int (length (rendered io))) settings}
        \<and> (codec_ok C \<longrightarrow> loadTask C s d' (ID task) = Inr task))"
proof (intro conjI impI ballI)
  show "set (determineInitialPageSet L T settings) = specInitialPages L T settings"
    by (rule set_determineInitialPageSet)
next
  assume c: "CreateTask L C s io settings d = (Inr (task, sel), d')"
  then obtain prov where
    pages: "Pages task = map (markPage (mark_now io) (determineInitialPageSet L (int (length (rendered io))) settings)) (Pages (newTask io prov))"
    by (rule CreateTask_pages)
  have "map PageNumber (Pages task) = map PageNumber (Pages (newTask io prov))"
    by (simp add: pages PageNumber_markPage comp_def)
  then show "map PageNumber (Pages task) = [1..int (length (rendered io))]"
    by (simp add: PageNumbers_newTask)
next
  fix p
  assume "CreateTask L C s io settings d = (Inr (task, sel), d')" and "p \<in> set (Pages task)"
  then show "if PageNumber p \<in> specInitialPages L (int (length (rendered io))) settings
         then Status p = PageStatusPending
         else Status p = PageStatusCompleted \<and> \<not> HasText p \<and> SourceText p = '''' \<and>
              Translation p = '''' \<and> Error p = ''''"
    by (rule CreateTask_page_states)
next
  assume "CreateTask L C s io settings d = (Inr (task, sel), d')"
  then show "set sel = {i. i < length (Pages task) \<and>
                      PageNumber (Pages task ! i) \<in> specInitialPages L (int (length (rendered io))) settings}"
    by (rule CreateTask_queue)
next
  assume c: "CreateTask L C s io settings d = (Inr (task, sel), d')" and ok: "codec_ok C"
  from c obtain prov t0 where sv: "saveTask C s (create_save io) t0 d = (None, task, d')"
    by (rule CreateTask_pages)
  from saveTask_persisted [OF ok sv] Pages_saveTask [OF sv]
  show "loadTask C s d' (ID task) = Inr task" by simp
qed

text \<open>
  The scenario of the specification: five pages, the first three selected. Pages 1 to 3 are
  Pending and queued for the pool, pages 4 and 5 are Completed with empty text.
\<close>

theorem initial_page_selection_witness:
  "determineInitialPageSet asciiStrings 5 firstThree = [1, 2, 3]
   \<and> specInitialPages asciiStrings 5 firstThree = {1, 2, 3}
   \<and> CreateTask asciiStrings valueCodec exampleService exampleCreate firstThree emptyDisk
        = (Inr (createdTask, createdQueue), snd createdExample)
   \<and> map PageNumber (Pages createdTask) = [1, 2, 3, 4, 5]
   \<and> map Status (Pages createdTask) =
        [PageStatusPending, PageStatusPending, PageStatusPending, PageStatusCompleted, PageStatusCompleted]
   \<and> map Translation (Pages createdTask) = ['''', '''', '''', '''', '''']
   \<and> map Error (Pages createdTask) = ['''', '''', '''', '''', '''']
   \<and> createdQueue = [0, 1, 2]
   \<and> loadTask valueCodec exampleService (snd createdExample) ''t1'' = Inr createdTask"
proof -
  have run: "CreateTask asciiStrings valueCodec exampleService exampleCreate firstThree emptyDisk
        = (Inr (createdTask, createdQueue), snd createdExample)"
    using created_eval by (simp add: createdExample_def)
  have sel: "determineInitialPageSet asciiStrings 5 firstThree = [1, 2, 3]"
    by code_simp
  note main = initial_page_selection [of asciiStrings 5 firstThree valueCodec exampleService
      exampleCreate emptyDisk createdTask createdQueue "snd createdExample"]
  from main sel have spec: "specInitialPages asciiStrings 5 firstThree = {1, 2, 3}"
    by auto
  from main run codec_ok_valueCodec
  have "loadTask valueCodec exampleService (snd createdExample) (ID createdTask) = Inr createdTask"
    by blast
  then have "loadTask valueCodec exampleService (snd createdExample) ''t1'' = Inr createdTask"
    by (simp add: created_statuses)
  with run sel spec created_statuses show ?thesis by simp
qed

section \<open>Chunk sizing: the code against the specification\<close>

lemma estimate_positive_tokens:
  assumes "0 < t"
  shows "estimateFormatterChunkSize scaled provider t = specChunkBudget scaled provider t"
proof (cases "provider = ProviderTypeOpenAI")
  case True
  with assms show ?thesis
    unfolding estimateFormatterChunkSize_def specChunkBudget_def clampedBudget_def
      formatterChunkSize_def minFormatterChunk_def Let_def
    by (simp add: max_def min_def) linarith
next
  case False
  with assms show ?thesis
    unfolding estimateFormatterChunkSize_def specChunkBudget_def clampedBudget_def
      formatterChunkSize_def minFormatterChunk_def Let_def
    by (simp add: max_def min_def)
qed

lemma SanitizeMaxTokens_positive: "0 < SanitizeMaxTokens v"
  by (simp add: SanitizeMaxTokens_def)

text \<open>
  C8. For every provider kind and every sanitized token budget, the chunk size the code
  computes is the scaled budget clamped to [12 KiB, 60 KiB], and for the OpenAI kind
  half of that, not below the 12 KiB floor.
\<close>

theorem estimateFormatterChunkSize_is_clamped_budget:
  "estimateFormatterChunkSize scaled provider (SanitizeMaxTokens v)
     = specChunkBudget scaled provider (SanitizeMaxTokens v)"
  by (rule estimate_positive_tokens [OF SanitizeMaxTokens_positive])

text \<open>
  The same at concrete inputs, with \<open>scaled t = \<lfloor>1.6 t\<rfloor>\<close>: an unset budget is
  sanitized to 8192 tokens, scaled to 13107 bytes; 20000 tokens scale to 32000 bytes, which
  the OpenAI kind halves to 16000.
\<close>

theorem estimateFormatterChunkSize_is_clamped_budget_witness:
  "estimateFormatterChunkSize (\<lambda>t. t * 8 div 5) ''gemini'' (SanitizeMaxTokens 0) = 13107
   \<and> estimateFormatterChunkSize (\<lambda>t. t * 8 div 5) ''openai'' (SanitizeMaxTokens 0) = 12288
   \<and> estimateFormatterChunkSize (\<lambda>t. t * 8 div 5) ''openai'' (SanitizeMaxTokens 20000) = 16000"
  using estimateFormatterChunkSize_is_clamped_budget [of "\<lambda>t. t * 8 div 5" "''gemini''" 0]
    estimateFormatterChunkSize_is_clamped_budget [of "\<lambda>t. t * 8 div 5" "''openai''" 0]
    estimateFormatterChunkSize_is_clamped_budget [of "\<lambda>t. t * 8 div 5" "''openai''" 20000]
  by (simp add: specChunkBudget_def clampedBudget_def SanitizeMaxTokens_def
      ProviderTypeOpenAI_def formatterChunkSize_def minFormatterChunk_def)


section \<open>A failed translation leaves the page's text alone\<close>

text \<open>
  C7. When the provider's \<open>Translate\<close> fails for a page, \<open>translateSinglePage\<close> sets the
  page's status to Error and its error to the provider's message, and leaves
  \<open>HasText\<close>, \<open>SourceText\<close> and \<open>Translation\<close> as they were before the call; when the
  save succeeds, the stored task is the in-memory task with that page.
\<close>

theorem failed_translation_keeps_text:
  assumes "translated io = Inl err"
    and "idx < length (Pages task)"
    and "translateSinglePage L C s io task idx mergeOnSave d = (e, task', d')"
  shows "Status (Pages task' ! idx) = PageStatusError
       \<and> Error (Pages task' ! idx) = err
       \<and> HasText (Pages task' ! idx) = HasText (Pages task ! idx)
       \<and> SourceText (Pages task' ! idx) = SourceText (Pages task ! idx)
       \<and> Translation (Pages task' ! idx) = Translation (Pages task ! idx)
       \<and> (codec_ok C \<and> e = None \<longrightarrow> loadTask C s d' (ID task) = Inr task')"
proof -
  let ?t = "setPage task idx (failedPage io err (Pages task ! idx))"
  from assms(1,3) have sv: "saveTask C s (page_save io) ?t d = (e, task', d')"
    by (simp add: translateSinglePage_failed)
  from Pages_saveTask [OF sv] assms(2)
  have page: "Pages task' ! idx = failedPage io err (Pages task ! idx)"
    by (simp add: setPage_def)
  have "loadTask C s d' (ID task) = Inr task'" if "codec_ok C" "e = None"
    using saveTask_persisted [OF that(1), of s "page_save io" ?t d task' d'] sv that(2)
    by (simp add: setPage_def)
  then show ?thesis
    by (simp add: page failedPage_def)
qed

text \<open>
  The retranslation of page 1 fails after the pool had translated it: the page is in Error
  with the provider's message, and the text of the first attempt is still there, in memory
  and in the store.
\<close>

theorem failed_translation_keeps_text_witness:
  "Status (Pages onceTask ! 0) = PageStatusCompleted
   \<and> Translation (Pages onceTask ! 0) = ''bonjour''
   \<and> fst failedAfter = None
   \<and> Status (Pages (fst (snd failedAfter)) ! 0) = PageStatusError
   \<and> Error (Pages (fst (snd failedAfter)) ! 0) = ''OpenAI: 500 Internal Server Error''
   \<and> HasText (Pages (fst (snd failedAfter)) ! 0)
   \<and> SourceText (Pages (fst (snd failedAfter)) ! 0) = ''hello''
   \<and> Translation (Pages (fst (snd failedAfter)) ! 0) = ''bonjour''
   \<and> loadTask valueCodec exampleService (snd (snd failedAfter)) ''t1'' = Inr (fst (snd failedAfter))"
proof -
  have io: "translated failingIO = Inl ''OpenAI: 500 Internal Server Error''"
    by (simp add: failingIO_def)
  have run: "translateSinglePage asciiStrings valueCodec exampleService failingIO onceTask 0 True onceDisk
      = (fst failedAfter, fst (snd failedAfter), snd (snd failedAfter))"
    by (simp add: failedAfter_def)
  have saved: "fst failedAfter = None"
    unfolding failedAfter_def translateSinglePage_failed [OF io]
    by (simp add: saveTask_ok failingIO_def)
  have idx: "0 < length (Pages onceTask)"
    by (simp add: once_eval)
  from failed_translation_keeps_text [OF io idx run] codec_ok_valueCodec saved once_eval
  show ?thesis by simp
qed

section \<open>C5: the status and the error of a stored page\<close>

text \<open>
  A call of \<open>translateSinglePage\<close> that no other worker interrupts does, step by step,
  what the call does as a whole.
\<close>

lemma setPage_setPage:
  "setPage (setPage task idx p) idx q = setPage task idx q"
  by (simp add: setPage_def)

lemma nth_setPage:
  "idx < length (Pages task) \<Longrightarrow> Pages (setPage task idx p) ! idx = p"
  by (simp add: setPage_def)

lemma length_setPage: "length (Pages (setPage task idx p)) = length (Pages task)"
  by (simp add: setPage_def)

lemma pageWrites_alone:
  assumes "idx < length (Pages task)"
  shows "fold (applyWrite C s idx) (pageWrites L io) (task, d)
           = snd (translateSinglePage L C s io task idx False d)"
proof (cases "translated io")
  case (Inl err)
  with assms show ?thesis
    by (simp add: pageWrites_def translateSinglePage_def Let_def nth_setPage setPage_setPage
        length_setPage split: prod.splits)
next
  case (Inr result)
  with assms show ?thesis
    by (auto simp: pageWrites_def translateSinglePage_def persistPageUpdate_def Let_def nth_setPage
        setPage_setPage length_setPage split: prod.splits option.splits)
qed

text \<open>
  C5. The claim fails in the pool. In the run of the example, the worker of page 2, whose
  provider call failed, has written \<open>page.Status\<close> and not yet \<open>page.Error\<close> when the
  worker of page 1 saves the shared task: the stored task then holds page 2 with status
  \<open>error\<close> and an empty error. Once the worker of page 2 has done its remaining steps,
  its own save stores the error text.
\<close>

theorem pool_save_between_status_and_error:
  "storedStatuses racedPool
     = Some [(1, PageStatusCompleted, ''''), (2, PageStatusError, ''''),
             (3, PageStatusPending, ''''), (4, PageStatusCompleted, ''''),
             (5, PageStatusCompleted, '''')]
   \<and> storedStatuses settledPool
     = Some [(1, PageStatusCompleted, ''''),
             (2, PageStatusError, ''OpenAI: 500 Internal Server Error''),
             (3, PageStatusPending, ''''), (4, PageStatusCompleted, ''''),
             (5, PageStatusCompleted, '''')]"
  by code_simp

section \<open>Facts about the formatting run\<close>

lemma finishRun_failed:
  "firstErr st = Some e \<Longrightarrow> finishRun E io st = (Inl e, deferredUpdate E io st (run_disk st))"
  by (simp add: finishRun_def)

lemma setError_fields [simp]:
  "slept (setError err st) = slept st"
  "currentLimit (setError err st) = currentLimit st"
  "completedChunks (setError err st) = completedChunks st"
  "results (setError err st) = results st"
  "run_disk (setError err st) = run_disk st"
  by (simp_all add: setError_def)

lemma setError_firstErr:
  "firstErr (setError err st) = Some (case firstErr st of None \<Rightarrow> err | Some e \<Rightarrow> e)"
  by (simp add: setError_def split: option.splits)

lemma setError_cancelled:
  "firstErr st = None \<Longrightarrow> cancelled (setError err st)"
  by (simp add: setError_def)



lemma started_eval:
  "cancelled startedRun = False"
  "firstErr startedRun = None"
  "currentLimit startedRun = 3"
  "slept startedRun = []"
  "completedChunks startedRun = 0"
  by code_simp+












section \<open>The invariant of a run\<close>








section \<open>C2: the progress fields of a stored task\<close>






section \<open>A truncated chunk\<close>

text \<open>
  C3, as the code has it. When \<open>Format\<close> returns a text whose trimmed rune count is less
  than half the rune count of a non-empty chunk (half by integer division), the worker
  records the truncation error and returns at once: the first error is set and the run
  cancelled (unless an error was set before), nothing is slept, the concurrency cap and
  the progress are as before, no further attempt is made, and the run ends in failure.
\<close>

theorem truncated_output_fails_at_once:
  assumes "formatted io = Inr result"
    and "fmt retries = Inr result"
    and "\<not> cancelled st"
    and "0 < runeCount (f_chunks E ! idx)"
    and "runeCount (TrimSpace (f_strings E) result) < runeCount (f_chunks E ! idx) div 2"
  shows "workerStep E io idx (Running retries) st = (Done, setError (TruncatedOutput (idx + 1)) st)
       \<and> processChunk E fmt psave idx (Running retries) st = setError (TruncatedOutput (idx + 1)) st
       \<and> slept (setError (TruncatedOutput (idx + 1)) st) = slept st
       \<and> currentLimit (setError (TruncatedOutput (idx + 1)) st) = currentLimit st
       \<and> completedChunks (setError (TruncatedOutput (idx + 1)) st) = completedChunks st
       \<and> run_disk (setError (TruncatedOutput (idx + 1)) st) = run_disk st
       \<and> (firstErr st = None \<longrightarrow>
            firstErr (setError (TruncatedOutput (idx + 1)) st) = Some (TruncatedOutput (idx + 1)) \<and>
            cancelled (setError (TruncatedOutput (idx + 1)) st))
       \<and> (\<exists>e. fst (finishRun E fio (setError (TruncatedOutput (idx + 1)) st)) = Inl e)"
proof -
  let ?st = "setError (TruncatedOutput (idx + 1)) st"
  have s: "workerStep E io' idx (Running retries) st = (Done, ?st)" if "formatted io' = Inr result" for io'
    using assms(3,4,5) that by (simp add: Let_def)
  have p: "processChunk E fmt psave idx (Running retries) st = ?st"
    using s [of "\<lparr> formatted = fmt retries, step_save = psave \<rparr>"] assms(2) by simp
  obtain e where e: "firstErr ?st = Some e"
    by (simp add: setError_firstErr)
  from finishRun_failed [OF e] have "fst (finishRun E fio ?st) = Inl e" by simp
  with s [OF assms(1)] p show ?thesis
    by (auto simp: setError_firstErr setError_cancelled)
qed

text \<open>
  The first chunk of the example run has 16 runes and the output one: the worker returns
  with the truncation error of chunk 1, no sleep, and the cap still at 3.
\<close>

theorem truncated_output_fails_at_once_witness:
  "workerStep formatEnv shortOutput 0 (Running 0) startedRun
     = (Done, setError (TruncatedOutput 1) startedRun)
   \<and> processChunk formatEnv (\<lambda>k. Inr ''x'') progressSave 0 (Running 0) startedRun
       = setError (TruncatedOutput 1) startedRun
   \<and> firstErr (setError (TruncatedOutput 1) startedRun) = Some (TruncatedOutput 1)
   \<and> slept (setError (TruncatedOutput 1) startedRun) = []
   \<and> currentLimit (setError (TruncatedOutput 1) startedRun) = 3"
proof -
  have a: "formatted shortOutput = Inr ''x''" by (simp add: shortOutput_def)
  have b: "\<not> cancelled startedRun" by (simp add: started_eval)
  have c: "0 < runeCount (f_chunks formatEnv ! 0)" by code_simp
  have d: "runeCount (TrimSpace (f_strings formatEnv) ''x'') < runeCount (f_chunks formatEnv ! 0) div 2"
    by code_simp
  from truncated_output_fails_at_once [of shortOutput "''x''" "\<lambda>k. Inr ''x''" 0 startedRun formatEnv 0,
      OF a refl b c d]
  show ?thesis by (simp add: started_eval)
qed

text \<open>
  C3 as stated fails. In the same state, the short output ends the worker with the error
  set, the cap at 3 and nothing slept, whereas a rate-limit error keeps the worker in its
  loop with one retry, the cap lowered to 1 and a sleep of one second. And an output of
  one rune for a chunk of three runes is accepted, since \<open>3 / 2 = 1\<close>.
\<close>

theorem truncation_is_not_retried:
  "fst (workerStep formatEnv shortOutput 0 (Running 0) startedRun) = Done
   \<and> firstErr (snd (workerStep formatEnv shortOutput 0 (Running 0) startedRun)) = Some (TruncatedOutput 1)
   \<and> currentLimit (snd (workerStep formatEnv shortOutput 0 (Running 0) startedRun)) = 3
   \<and> slept (snd (workerStep formatEnv shortOutput 0 (Running 0) startedRun)) = []
   \<and> fst (workerStep formatEnv rateLimited 0 (Running 0) startedRun) = Running 1
   \<and> firstErr (snd (workerStep formatEnv rateLimited 0 (Running 0) startedRun)) = None
   \<and> currentLimit (snd (workerStep formatEnv rateLimited 0 (Running 0) startedRun)) = 1
   \<and> slept (snd (workerStep formatEnv rateLimited 0 (Running 0) startedRun)) = [(0, 1)]
   \<and> runeCount (f_chunks formatEnv ! 3) = 3
   \<and> fst (workerStep formatEnv shortOutput 3 (Running 0) startedRun) = Persisting 1"
  by code_simp

section \<open>C4: a chunk that keeps meeting the rate limit\<close>





section \<open>The chunk splitter\<close>

lemma EncodeRune_nonempty: "EncodeRune r \<noteq> []"
  by (simp add: EncodeRune_def encode3_def)

lemma splitLoop_concat:
  "splitLoop maxBytes rs chunks builder current = (chunks', builder', current') \<Longrightarrow>
   concat chunks' @ builder' = concat chunks @ builder @ concat (map EncodeRune rs)"
proof (induction rs arbitrary: chunks builder current)
  case Nil
  then show ?case by simp
next
  case (Cons r rs)
  from Cons.prems show ?case
    by (auto simp: Let_def split: if_splits dest!: Cons.IH)
qed

lemma splitLoop_nonempty:
  "splitLoop maxBytes rs chunks builder current = (chunks', builder', current') \<Longrightarrow>
   [] \<notin> set chunks \<Longrightarrow> [] \<notin> set chunks'"
proof (induction rs arbitrary: chunks builder current)
  case Nil
  then show ?case by simp
next
  case (Cons r rs)
  from Cons.prems EncodeRune_nonempty [of r] show ?case
    by (auto simp: Let_def split: if_splits dest!: Cons.IH)
qed

lemma splitTextChunks_concat:
  "concat (splitTextChunks text maxBytes) = reencoded text"
proof -
  let ?m = "if maxBytes \<le> 0 then formatterChunkSize else maxBytes"
  obtain chunks builder current where
    r: "splitLoop ?m (map fst (runes text)) [] [] 0 = (chunks, builder, current)"
    by (cases "splitLoop ?m (map fst (runes text)) [] [] 0") auto
  from splitLoop_concat [OF r] show ?thesis
    by (auto simp: splitTextChunks_def reencoded_def r Let_def comp_def)
qed

lemma splitTextChunks_nonempty: "[] \<notin> set (splitTextChunks text maxBytes)"
proof -
  let ?m = "if maxBytes \<le> 0 then formatterChunkSize else maxBytes"
  obtain chunks builder current where
    r: "splitLoop ?m (map fst (runes text)) [] [] 0 = (chunks, builder, current)"
    by (cases "splitLoop ?m (map fst (runes text)) [] [] 0") auto
  from splitLoop_nonempty [OF r] show ?thesis
    by (auto simp: splitTextChunks_def r Let_def)
qed

lemma runes_empty_iff: "runes text = [] \<longleftrightarrow> text = []"
  by (cases "text") simp_all

lemma splitTextChunks_empty_iff: "splitTextChunks text maxBytes = [] \<longleftrightarrow> text = []"
proof
  assume "splitTextChunks text maxBytes = []"
  then have "reencoded text = []"
    using splitTextChunks_concat [of "text" maxBytes] by simp
  then have "runes text = []"
    by (cases "runes text") (simp_all add: reencoded_def EncodeRune_nonempty)
  then show "text = []" by (simp add: runes_empty_iff)
next
  assume "text = []"
  then show "splitTextChunks text maxBytes = []"
    by (simp add: splitTextChunks_def)
qed

section \<open>Decoding and encoding a rune\<close>

lemma split_div:
  fixes x y m :: int
  assumes "0 \<le> y" "y < m"
  shows "(x * m + y) div m = x" and "(x * m + y) mod m = y"
  using assms by (simp_all add: div_pos_pos_trivial)

lemma lead_mod:
  fixes b :: int
  shows "0xC0 \<le> b \<Longrightarrow> b < 0xE0 \<Longrightarrow> b mod 32 = b - 0xC0"
    and "0xE0 \<le> b \<Longrightarrow> b < 0xF0 \<Longrightarrow> b mod 16 = b - 0xE0"
    and "0xF0 \<le> b \<Longrightarrow> b < 0xF8 \<Longrightarrow> b mod 8 = b - 0xF0"
    and "0x80 \<le> b \<Longrightarrow> b \<le> 0xBF \<Longrightarrow> b mod 64 = b - 0x80"
proof -
  show "0xC0 \<le> b \<Longrightarrow> b < 0xE0 \<Longrightarrow> b mod 32 = b - 0xC0"
    using mod_mult_self2 [of "b - 0xC0" 32 6] by (simp add: mod_pos_pos_trivial)
  show "0xE0 \<le> b \<Longrightarrow> b < 0xF0 \<Longrightarrow> b mod 16 = b - 0xE0"
    using mod_mult_self2 [of "b - 0xE0" 16 14] by (simp add: mod_pos_pos_trivial)
  show "0xF0 \<le> b \<Longrightarrow> b < 0xF8 \<Longrightarrow> b mod 8 = b - 0xF0"
    using mod_mult_self2 [of "b - 0xF0" 8 30] by (simp add: mod_pos_pos_trivial)
  show "0x80 \<le> b \<Longrightarrow> b \<le> 0xBF \<Longrightarrow> b mod 64 = b - 0x80"
    using mod_mult_self2 [of "b - 0x80" 64 2] by (simp add: mod_pos_pos_trivial)
qed

lemma byte_range: "0 \<le> byte c \<and> byte c < 256"
proof -
  have "byte c = int (of_char c)"
    by (simp add: byte_def of_nat_of_char)
  then show ?thesis
    using nat_of_char_less_256 [of c] by simp
qed

lemma char_of_byte: "char_of (byte c) = c"
  by (simp add: byte_def)

lemma decode_two:
  assumes "0xC0 \<le> byte c0" "byte c0 < 0xE0"
    and "decodeRune (c0 # rest) = (r, w)" and "(r, w) \<noteq> (runeError, 1)"
  obtains c1 rest' where "rest = c1 # rest'" "cont c1"
    "r = (byte c0 mod 32) * 64 + byte c1 mod 64" "0x7F < r" "w = 2"
  using assms by (auto simp: Let_def split: list.splits if_splits)

lemma decode_three:
  assumes "0xE0 \<le> byte c0" "byte c0 < 0xF0"
    and "decodeRune (c0 # rest) = (r, w)" and "(r, w) \<noteq> (runeError, 1)"
  obtains c1 c2 rest' where "rest = c1 # c2 # rest'" "cont c1" "cont c2"
    "r = (byte c0 mod 16) * 4096 + (byte c1 mod 64) * 64 + byte c2 mod 64"
    "0x7FF < r" "\<not> (0xD800 \<le> r \<and> r \<le> 0xDFFF)" "w = 3"
  using assms by (auto simp: Let_def split: list.splits if_splits)

lemma decode_four:
  assumes "0xF0 \<le> byte c0" "byte c0 < 0xF8"
    and "decodeRune (c0 # rest) = (r, w)" and "(r, w) \<noteq> (runeError, 1)"
  obtains c1 c2 c3 rest' where "rest = c1 # c2 # c3 # rest'" "cont c1" "cont c2" "cont c3"
    "r = (byte c0 mod 8) * 262144 + (byte c1 mod 64) * 4096 + (byte c2 mod 64) * 64 + byte c3 mod 64"
    "0xFFFF < r" "r \<le> 0x10FFFF" "w = 4"
  using assms by (auto simp: Let_def split: list.splits if_splits)

lemma decode_other:
  assumes "0x80 \<le> byte c0" "\<not> (0xC0 \<le> byte c0 \<and> byte c0 < 0xF8)"
  shows "decodeRune (c0 # rest) = (runeError, 1)"
  using assms by auto

lemma EncodeRune_1: "0 \<le> r \<Longrightarrow> r \<le> 0x7F \<Longrightarrow> EncodeRune r = [char_of r]"
  by (simp add: EncodeRune_def)

lemma EncodeRune_2:
  "0x7F < r \<Longrightarrow> r \<le> 0x7FF \<Longrightarrow> EncodeRune r = [char_of (0xC0 + r div 64), char_of (0x80 + r mod 64)]"
  by (simp add: EncodeRune_def)

lemma EncodeRune_3:
  "0x7FF < r \<Longrightarrow> r \<le> 0xFFFF \<Longrightarrow> \<not> (0xD800 \<le> r \<and> r \<le> 0xDFFF) \<Longrightarrow>
   EncodeRune r = [char_of (0xE0 + r div 4096), char_of (0x80 + (r div 64) mod 64),
                   char_of (0x80 + r mod 64)]"
  by (auto simp: EncodeRune_def encode3_def)

lemma EncodeRune_4:
  "0xFFFF < r \<Longrightarrow> r \<le> 0x10FFFF \<Longrightarrow>
   EncodeRune r = [char_of (0xF0 + r div 262144), char_of (0x80 + (r div 4096) mod 64),
                   char_of (0x80 + (r div 64) mod 64), char_of (0x80 + r mod 64)]"
  by (simp add: EncodeRune_def)

lemma div_4096: "(r::int) div 4096 = (r div 64) div 64"
  by (simp add: div_mult2_eq [symmetric])

lemma div_262144: "(r::int) div 262144 = ((r div 64) div 64) div 64"
  by (simp add: div_mult2_eq [symmetric])

lemma cont_mod: "cont c \<Longrightarrow> byte c mod 64 = byte c - 0x80"
  by (simp add: cont_def lead_mod)

lemma cont_range: "cont c \<Longrightarrow> 0 \<le> byte c - 0x80 \<and> byte c - 0x80 < 64"
  by (simp add: cont_def)

lemma encode_two:
  assumes c0: "0xC0 \<le> byte c0" "byte c0 < 0xE0" and c1: "cont c1"
    and r: "r = (byte c0 mod 32) * 64 + byte c1 mod 64" and big: "0x7F < r"
  shows "EncodeRune r = [c0, c1]"
proof -
  define x where "x = byte c0 - 0xC0"
  define y where "y = byte c1 - 0x80"
  have x: "0 \<le> x" "x < 32"
    using c0 by (simp_all add: x_def)
  have y: "0 \<le> y" "y < 64"
    using cont_range [OF c1] by (simp_all add: y_def)
  have rx: "r = x * 64 + y"
    unfolding r x_def y_def lead_mod(1) [OF c0] cont_mod [OF c1] ..
  have d: "r div 64 = x" "r mod 64 = y"
    unfolding rx using y by (rule split_div)+
  have le: "r \<le> 0x7FF"
    unfolding rx using x y by linarith
  have b0: "0xC0 + x = byte c0" by (simp add: x_def)
  have b1: "0x80 + y = byte c1" by (simp add: y_def)
  show ?thesis
    unfolding EncodeRune_2 [OF big le] d b0 b1 char_of_byte ..
qed

lemma encode_three:
  assumes c0: "0xE0 \<le> byte c0" "byte c0 < 0xF0" and c1: "cont c1" and c2: "cont c2"
    and r: "r = (byte c0 mod 16) * 4096 + (byte c1 mod 64) * 64 + byte c2 mod 64"
    and big: "0x7FF < r" and sur: "\<not> (0xD800 \<le> r \<and> r \<le> 0xDFFF)"
  shows "EncodeRune r = [c0, c1, c2]"
proof -
  define x where "x = byte c0 - 0xE0"
  define y where "y = byte c1 - 0x80"
  define z where "z = byte c2 - 0x80"
  have x: "0 \<le> x" "x < 16"
    using c0 by (simp_all add: x_def)
  have y: "0 \<le> y" "y < 64"
    using cont_range [OF c1] by (simp_all add: y_def)
  have z: "0 \<le> z" "z < 64"
    using cont_range [OF c2] by (simp_all add: z_def)
  have r0: "r = x * 4096 + y * 64 + z"
    unfolding r x_def y_def z_def lead_mod(2) [OF c0] cont_mod [OF c1] cont_mod [OF c2] ..
  then have rx: "r = (x * 64 + y) * 64 + z"
    by simp
  have d1: "r div 64 = x * 64 + y" "r mod 64 = z"
    unfolding rx using z by (rule split_div)+
  have d2: "(x * 64 + y) div 64 = x" "(x * 64 + y) mod 64 = y"
    using y by (rule split_div)+
  have d3: "r div 4096 = x"
    unfolding div_4096 d1 d2 ..
  have le: "r \<le> 0xFFFF"
    unfolding r0 using x y z by linarith
  have b0: "0xE0 + x = byte c0" by (simp add: x_def)
  have b1: "0x80 + y = byte c1" by (simp add: y_def)
  have b2: "0x80 + z = byte c2" by (simp add: z_def)
  show ?thesis
    unfolding EncodeRune_3 [OF big le sur] d3 d1 d2 b0 b1 b2 char_of_byte ..
qed

lemma encode_four:
  assumes c0: "0xF0 \<le> byte c0" "byte c0 < 0xF8" and c1: "cont c1" and c2: "cont c2" and c3: "cont c3"
    and r: "r = (byte c0 mod 8) * 262144 + (byte c1 mod 64) * 4096 + (byte c2 mod 64) * 64 + byte c3 mod 64"
    and big: "0xFFFF < r" and le: "r \<le> 0x10FFFF"
  shows "EncodeRune r = [c0, c1, c2, c3]"
proof -
  define x where "x = byte c0 - 0xF0"
  define y where "y = byte c1 - 0x80"
  define z where "z = byte c2 - 0x80"
  define u where "u = byte c3 - 0x80"
  have y: "0 \<le> y" "y < 64"
    using cont_range [OF c1] by (simp_all add: y_def)
  have z: "0 \<le> z" "z < 64"
    using cont_range [OF c2] by (simp_all add: z_def)
  have u: "0 \<le> u" "u < 64"
    using cont_range [OF c3] by (simp_all add: u_def)
  have "r = x * 262144 + y * 4096 + z * 64 + u"
    unfolding r x_def y_def z_def u_def lead_mod(3) [OF c0] cont_mod [OF c1] cont_mod [OF c2]
      cont_mod [OF c3] ..
  then have rx: "r = ((x * 64 + y) * 64 + z) * 64 + u"
    by simp
  have d1: "r div 64 = (x * 64 + y) * 64 + z" "r mod 64 = u"
    unfolding rx using u by (rule split_div)+
  have d2: "((x * 64 + y) * 64 + z) div 64 = x * 64 + y" "((x * 64 + y) * 64 + z) mod 64 = z"
    using z by (rule split_div)+
  have d3: "(x * 64 + y) div 64 = x" "(x * 64 + y) mod 64 = y"
    using y by (rule split_div)+
  have d4: "r div 4096 = x * 64 + y"
    unfolding div_4096 d1 d2 ..
  have d5: "r div 262144 = x"
    unfolding div_262144 d1 d2 d3 ..
  have b0: "0xF0 + x = byte c0" by (simp add: x_def)
  have b1: "0x80 + y = byte c1" by (simp add: y_def)
  have b2: "0x80 + z = byte c2" by (simp add: z_def)
  have b3: "0x80 + u = byte c3" by (simp add: u_def)
  show ?thesis
    unfolding EncodeRune_4 [OF big le] d5 d4 d3 d1 d2 b0 b1 b2 b3 char_of_byte ..
qed

lemma decodeRune_roundtrip:
  assumes "decodeRune (c0 # rest) = (r, w)" and "(r, w) \<noteq> (runeError, 1)"
  shows "EncodeRune r = take w (c0 # rest)"
proof -
  consider "byte c0 < 0x80" | "0xC0 \<le> byte c0 \<and> byte c0 < 0xE0"
    | "0xE0 \<le> byte c0 \<and> byte c0 < 0xF0" | "0xF0 \<le> byte c0 \<and> byte c0 < 0xF8"
    | "0x80 \<le> byte c0 \<and> \<not> (0xC0 \<le> byte c0 \<and> byte c0 < 0xF8)"
    by linarith
  then show ?thesis
  proof cases
    case 1
    with assms(1) have rw: "r = byte c0" "w = 1" by simp_all
    from 1 byte_range [of c0] have "EncodeRune (byte c0) = [char_of (byte c0)]"
      by (intro EncodeRune_1) simp_all
    then show ?thesis
      by (simp add: rw char_of_byte)
  next
    case 2
    then have b: "0xC0 \<le> byte c0" "byte c0 < 0xE0" by simp_all
    show ?thesis
    proof (rule decode_two [OF b assms])
      fix c1 rest'
      assume h: "rest = c1 # rest'" "cont c1" "r = (byte c0 mod 32) * 64 + byte c1 mod 64"
        "0x7F < r" "w = 2"
      from encode_two [OF b h(2,3,4)] h(1,5) show ?thesis
        by (simp add: numeral_2_eq_2)
    qed
  next
    case 3
    then have b: "0xE0 \<le> byte c0" "byte c0 < 0xF0" by simp_all
    show ?thesis
    proof (rule decode_three [OF b assms])
      fix c1 c2 rest'
      assume h: "rest = c1 # c2 # rest'" "cont c1" "cont c2"
        "r = (byte c0 mod 16) * 4096 + (byte c1 mod 64) * 64 + byte c2 mod 64"
        "0x7FF < r" "\<not> (0xD800 \<le> r \<and> r \<le> 0xDFFF)" "w = 3"
      from encode_three [OF b h(2,3,4,5,6)] h(1,7) show ?thesis
        by (simp add: numeral_3_eq_3)
    qed
  next
    case 4
    then have b: "0xF0 \<le> byte c0" "byte c0 < 0xF8" by simp_all
    show ?thesis
    proof (rule decode_four [OF b assms])
      fix c1 c2 c3 rest'
      assume h: "rest = c1 # c2 # c3 # rest'" "cont c1" "cont c2" "cont c3"
        "r = (byte c0 mod 8) * 262144 + (byte c1 mod 64) * 4096 + (byte c2 mod 64) * 64 + byte c3 mod 64"
        "0xFFFF < r" "r \<le> 0x10FFFF" "w = 4"
      from encode_four [OF b h(2,3,4,5,6,7)] h(1,8) show ?thesis
        by (simp add: eval_nat_numeral)
    qed
  next
    case 5
    then have "decodeRune (c0 # rest) = (runeError, 1)"
      by (intro decode_other) simp_all
    with assms show ?thesis by simp
  qed
qed

declare decodeRune.simps [simp del]

lemma reencoded_Cons:
  "reencoded (c # cs) = EncodeRune (fst (decodeRune (c # cs))) @ reencoded (drop (snd (decodeRune (c # cs))) (c # cs))"
  by (simp add: reencoded_def)

lemma reencoded_valid: "validUTF8 s \<Longrightarrow> reencoded s = s"
proof (induction s rule: runes.induct)
  case 1
  show ?case by (simp add: reencoded_def)
next
  case (2 c cs)
  obtain r w where d: "decodeRune (c # cs) = (r, w)"
    by (cases "decodeRune (c # cs)") auto
  from "2.prems" have ok: "(r, w) \<noteq> (runeError, 1)"
    and rest: "validUTF8 (drop w (c # cs))"
    by (simp_all add: validUTF8_def d)
  have "reencoded (drop w (c # cs)) = drop w (c # cs)"
    using "2.IH" rest by (simp add: d)
  moreover have "EncodeRune r = take w (c # cs)"
    using d ok by (rule decodeRune_roundtrip)
  ultimately have "reencoded (c # cs) = take w (c # cs) @ drop w (c # cs)"
    by (simp add: reencoded_Cons d)
  then show ?case
    by (simp only: append_take_drop_id)
qed

lemma mod_bounds:
  fixes b :: int
  shows "0 \<le> b mod 64 \<and> b mod 64 < 64" "0 \<le> b mod 32 \<and> b mod 32 < 32"
    "0 \<le> b mod 16 \<and> b mod 16 < 16" "0 \<le> b mod 8 \<and> b mod 8 < 8"
  by simp_all

lemma decoded_rune_valid:
  assumes "decodeRune s = (r, w)"
  shows "0 \<le> r \<and> r \<le> 0x10FFFF \<and> \<not> (0xD800 \<le> r \<and> r \<le> 0xDFFF)"
proof (cases "(r, w) = (runeError, 1)")
  case True
  then show ?thesis by (simp add: runeError_def)
next
  case False
  show ?thesis
  proof (cases s)
    case Nil
    with assms False show ?thesis by (simp add: decodeRune.simps)
  next
    case (Cons c0 rest)
    note d = assms [unfolded Cons]
    consider "byte c0 < 0x80" | "0xC0 \<le> byte c0 \<and> byte c0 < 0xE0"
      | "0xE0 \<le> byte c0 \<and> byte c0 < 0xF0" | "0xF0 \<le> byte c0 \<and> byte c0 < 0xF8"
      | "0x80 \<le> byte c0 \<and> \<not> (0xC0 \<le> byte c0 \<and> byte c0 < 0xF8)"
      by linarith
    then show ?thesis
    proof cases
      case 1
      with d byte_range [of c0] show ?thesis by (auto simp: decodeRune.simps)
    next
      case 2
      then have b: "0xC0 \<le> byte c0" "byte c0 < 0xE0" by simp_all
      show ?thesis
      proof (rule decode_two [OF b d False])
        fix c1 rest'
        assume h: "r = (byte c0 mod 32) * 64 + byte c1 mod 64" "0x7F < r"
        from h mod_bounds(2) [of "byte c0"] mod_bounds(1) [of "byte c1"] show ?thesis
          by linarith
      qed
    next
      case 3
      then have b: "0xE0 \<le> byte c0" "byte c0 < 0xF0" by simp_all
      show ?thesis
      proof (rule decode_three [OF b d False])
        fix c1 c2 rest'
        assume h: "r = (byte c0 mod 16) * 4096 + (byte c1 mod 64) * 64 + byte c2 mod 64"
          "0x7FF < r" "\<not> (0xD800 \<le> r \<and> r \<le> 0xDFFF)"
        from h mod_bounds(3) [of "byte c0"] mod_bounds(1) [of "byte c1"] mod_bounds(1) [of "byte c2"]
        show ?thesis by linarith
      qed
    next
      case 4
      then have b: "0xF0 \<le> byte c0" "byte c0 < 0xF8" by simp_all
      show ?thesis
      proof (rule decode_four [OF b d False])
        assume h: "0xFFFF < r" "r \<le> 0x10FFFF"
        then show ?thesis by linarith
      qed
    next
      case 5
      then have "decodeRune (c0 # rest) = (runeError, 1)"
        by (intro decode_other) simp_all
      with d False show ?thesis by simp
    qed
  qed
qed

lemma RuneLen_EncodeRune:
  "0 \<le> r \<Longrightarrow> r \<le> 0x10FFFF \<Longrightarrow> \<not> (0xD800 \<le> r \<and> r \<le> 0xDFFF) \<Longrightarrow>
   RuneLen r = int (length (EncodeRune r))"
  by (auto simp: RuneLen_def EncodeRune_def encode3_def)

lemma runes_set: "rw \<in> set (runes s) \<Longrightarrow> \<exists>s'. decodeRune s' = rw"
  by (induction s rule: runes.induct) auto

lemma RuneLen_ranged:
  assumes "rw \<in> set (runes s)"
  shows "RuneLen (fst rw) = int (length (EncodeRune (fst rw)))"
proof -
  from runes_set [OF assms] obtain s' where "decodeRune s' = (fst rw, snd rw)" by auto
  from decoded_rune_valid [OF this] show ?thesis
    by (intro RuneLen_EncodeRune) simp_all
qed

text \<open>
  C10, as the code has it. For every text and every byte budget (a budget that is not
  positive is replaced by the nominal chunk size): the chunks, concatenated in order, are
  the re-encoded runes of the text; they are the text itself when the text is valid UTF-8;
  no chunk is empty; the list of chunks is empty exactly when the text is empty. Every
  buffer the loop allocates has the length of the encoding written into it.
\<close>

theorem splitTextChunks_lossless:
  "concat (splitTextChunks text maxBytes) = reencoded text
   \<and> (validUTF8 text \<longrightarrow> concat (splitTextChunks text maxBytes) = text)
   \<and> [] \<notin> set (splitTextChunks text maxBytes)
   \<and> (splitTextChunks text maxBytes = [] \<longleftrightarrow> text = [])
   \<and> (\<forall>rw \<in> set (runes text). RuneLen (fst rw) = int (length (EncodeRune (fst rw))))"
  using splitTextChunks_concat [of "text" maxBytes] reencoded_valid [of "text"]
    splitTextChunks_nonempty [of "text" maxBytes] splitTextChunks_empty_iff [of "text" maxBytes]
    RuneLen_ranged [of _ "text"]
  by simp

text \<open>
  A valid text split with a budget of four bytes: the line break closes the first chunk,
  the budget closes the next ones, and the chunks concatenate to the text.
\<close>

theorem splitTextChunks_lossless_witness:
  "validUTF8 exampleText
   \<and> splitTextChunks exampleText 4 =
       [[CHR ''h'', CHR 0xC3, CHR 0xA9, CHR 0x0A], [CHR 0xE6, CHR 0x8E, CHR 0x92],
        [CHR 0xE7, CHR 0x89, CHR 0x88, CHR ''o''], [CHR ''k'']]
   \<and> concat (splitTextChunks exampleText 4) = exampleText"
proof -
  have v: "validUTF8 exampleText"
    by code_simp
  have c: "splitTextChunks exampleText 4 =
       [[CHR ''h'', CHR 0xC3, CHR 0xA9, CHR 0x0A], [CHR 0xE6, CHR 0x8E, CHR 0x92],
        [CHR 0xE7, CHR 0x89, CHR 0x88, CHR ''o''], [CHR ''k'']]"
    by code_simp
  from splitTextChunks_lossless [of exampleText 4] v c show ?thesis
    by blast
qed

text \<open>
  C10 as stated fails on a text that is not valid UTF-8. The single byte \<open>0xFF\<close> is read
  as the rune U+FFFD and written as its three-byte encoding: the one chunk returned is
  not the input.
\<close>

theorem splitTextChunks_invalid_byte:
  "splitTextChunks [CHR 0xFF] 10 = [[CHR 0xEF, CHR 0xBF, CHR 0xBD]]
   \<and> concat (splitTextChunks [CHR 0xFF] 10) \<noteq> [CHR 0xFF]"
  by code_simp

section \<open>Reading back a JSON string\<close>

lemma hexValue_hex: "0 \<le> n \<Longrightarrow> n < 16 \<Longrightarrow> hexValue (hex n) = Some n"
proof -
  assume n: "0 \<le> n" "n < 16"
  have digits: "\<forall>k \<in> set [0..<16]. hexValue (hex (int k)) = Some (int k)"
    by code_simp
  from n have "nat n \<in> set [0..<16]" by simp
  with digits have "hexValue (hex (int (nat n))) = Some (int (nat n))" by blast
  with n show ?thesis by simp
qed

lemma char_eq_byte: "(c = d) = (byte c = byte d)"
  by (metis char_of_byte)

lemma map_option_single: "map_option ((@) [c]) x = map_option ((#) c) x"
  by (cases x) simp_all

lemma getu4_low:
  assumes "0 \<le> b" "b < 0x80"
  shows "getu4 (CHR 0x5C # CHR ''u'' # CHR ''0'' # CHR ''0'' # hex (b div 16) # hex (b mod 16) # X) = b"
proof -
  from assms have "0 \<le> b div 16" "b div 16 < 16" "0 \<le> b mod 16" "b mod 16 < 16" by simp_all
  then have "hexValue (hex (b div 16)) = Some (b div 16)" "hexValue (hex (b mod 16)) = Some (b mod 16)"
    by (simp_all add: hexValue_hex)
  moreover have "hexValue (CHR ''0'') = Some 0" by (simp add: hexValue_def byte_def)
  ultimately show ?thesis by simp
qed

lemma unquoteBody_ascii:
  assumes "byte c < 0x80"
  shows "unquoteBody ((if htmlSafe (byte c) then [c] else escapeByte c) @ X)
           = map_option ((#) c) (unquoteBody X)"
proof (cases "htmlSafe (byte c)")
  case True
  then have "c \<noteq> CHR 0x5C" "c \<noteq> CHR 0x22" "\<not> byte c < 0x20"
    by (auto simp: htmlSafe_def byte_def)
  with True assms show ?thesis by simp
next
  case False
  from byte_range [of c] assms have b: "0 \<le> byte c" "byte c < 0x80" by simp_all
  note g = getu4_low [OF b, of X]
  have e: "EncodeRune (byte c) = [c]"
    using b by (simp add: EncodeRune_1 char_of_byte)
  have s: "\<not> IsSurrogate (byte c)" using b by (simp add: IsSurrogate_def)
  from False g e s b show ?thesis
    by (simp add: escapeByte_def map_option_single del: getu4.simps)
qed

lemma unquoteBody_bad:
  "unquoteBody ([CHR 0x5C, CHR ''u'', CHR ''f'', CHR ''f'', CHR ''f'', CHR ''d''] @ X)
     = map_option ((@) (EncodeRune runeError)) (unquoteBody X)"
proof -
  have "getu4 (CHR 0x5C # CHR ''u'' # CHR ''f'' # CHR ''f'' # CHR ''f'' # CHR ''d'' # X) = runeError"
    by (simp add: hexValue_def byte_def runeError_def)
  then show ?thesis
    by (simp add: IsSurrogate_def runeError_def del: getu4.simps)
qed

lemma unquoteBody_separator:
  assumes "r = 0x2028 \<or> r = 0x2029"
  shows "unquoteBody ([CHR 0x5C, CHR ''u'', CHR ''2'', CHR ''0'', CHR ''2'', hex (r mod 16)] @ X)
     = map_option ((@) (EncodeRune r)) (unquoteBody X)"
proof -
  from assms have h: "hexValue (hex (r mod 16)) = Some (r mod 16)"
    by (intro hexValue_hex) auto
  have "hexValue (CHR ''2'') = Some 2" "hexValue (CHR ''0'') = Some 0"
    by (simp_all add: hexValue_def byte_def)
  with h assms have "getu4 (CHR 0x5C # CHR ''u'' # CHR ''2'' # CHR ''0'' # CHR ''2'' # hex (r mod 16) # X) = r"
    by auto
  with assms show ?thesis
    by (auto simp: IsSurrogate_def simp del: getu4.simps)
qed

lemma decodeRune_take:
  assumes d: "decodeRune (c0 # rest) = (r, w)" and ok: "(r, w) \<noteq> (runeError, 1)"
  shows "\<exists>tl. take w (c0 # rest) = c0 # tl \<and> decodeRune (c0 # tl @ X) = (r, w)
              \<and> drop w (c0 # tl @ X) = X"
proof -
  consider "byte c0 < 0x80" | "0xC0 \<le> byte c0 \<and> byte c0 < 0xE0"
    | "0xE0 \<le> byte c0 \<and> byte c0 < 0xF0" | "0xF0 \<le> byte c0 \<and> byte c0 < 0xF8"
    | "0x80 \<le> byte c0 \<and> \<not> (0xC0 \<le> byte c0 \<and> byte c0 < 0xF8)"
    by linarith
  then show ?thesis
  proof cases
    case 1
    with d have "r = byte c0" "w = 1" by (simp_all add: decodeRune.simps)
    with 1 show ?thesis by (simp add: decodeRune.simps)
  next
    case 2
    then have c: "0xC0 \<le> byte c0" "byte c0 < 0xE0" by simp_all
    from decode_two [OF c d ok] obtain c1 rest' where
      f: "rest = c1 # rest'" "cont c1" "r = (byte c0 mod 32) * 64 + byte c1 mod 64" "0x7F < r" "w = 2"
      by blast
    have "decodeRune (c0 # [c1] @ X) = (r, w)"
      using c f by (simp add: decodeRune.simps Let_def)
    with f show ?thesis by simp
  next
    case 3
    then have c: "0xE0 \<le> byte c0" "byte c0 < 0xF0" by simp_all
    from decode_three [OF c d ok] obtain c1 c2 rest' where
      f: "rest = c1 # c2 # rest'" "cont c1" "cont c2"
        "r = (byte c0 mod 16) * 4096 + (byte c1 mod 64) * 64 + byte c2 mod 64"
        "0x7FF < r" "\<not> (0xD800 \<le> r \<and> r \<le> 0xDFFF)" "w = 3"
      by blast
    have "decodeRune (c0 # [c1, c2] @ X) = (r, w)"
      using c f by (simp add: decodeRune.simps Let_def)
    with f show ?thesis by simp
  next
    case 4
    then have c: "0xF0 \<le> byte c0" "byte c0 < 0xF8" by simp_all
    from decode_four [OF c d ok] obtain c1 c2 c3 rest' where
      f: "rest = c1 # c2 # c3 # rest'" "cont c1" "cont c2" "cont c3"
        "r = (byte c0 mod 8) * 262144 + (byte c1 mod 64) * 4096 + (byte c2 mod 64) * 64 + byte c3 mod 64"
        "0xFFFF < r" "r \<le> 0x10FFFF" "w = 4"
      by blast
    have "decodeRune (c0 # [c1, c2, c3] @ X) = (r, w)"
      using c f by (simp add: decodeRune.simps Let_def)
    with f show ?thesis by simp
  next
    case 5
    then have "decodeRune (c0 # rest) = (runeError, 1)"
      by (intro decode_other) simp_all
    with d ok show ?thesis by simp
  qed
qed

lemma unquoteBody_rune:
  assumes hi: "\<not> byte c < 0x80" and d: "decodeRune (c # cs) = (r, w)" and ok: "(r, w) \<noteq> (runeError, 1)"
  shows "unquoteBody (take w (c # cs) @ X) = map_option ((@) (EncodeRune r)) (unquoteBody X)"
proof -
  from decodeRune_take [OF d ok, of X] obtain tl where
    t: "take w (c # cs) = c # tl" "decodeRune (c # tl @ X) = (r, w)" "drop w (c # tl @ X) = X"
    by blast
  from hi have "c \<noteq> CHR 0x5C" "c \<noteq> CHR 0x22" "\<not> byte c < 0x20"
    by (auto simp: byte_def)
  with hi t show ?thesis by simp
qed

lemma unquoteBody_appendBody: "unquoteBody (appendBody s) = Some (reencoded s)"
proof (induction s rule: appendBody.induct)
  case 1
  show ?case by (simp add: reencoded_def)
next
  case (2 c cs)
  obtain r w where d: "decodeRune (c # cs) = (r, w)" by (cases "decodeRune (c # cs)") auto
  note rc = reencoded_Cons [of c cs]
  show ?case
  proof (cases "byte c < 0x80")
    case True
    with d have rw: "r = byte c" "w = 1" by (simp_all add: decodeRune.simps)
    from byte_range [of c] True have "EncodeRune (byte c) = [c]"
      by (simp add: EncodeRune_1 char_of_byte)
    with rc d rw have "reencoded (c # cs) = c # reencoded cs" by simp
    moreover from True 2 have "unquoteBody (appendBody cs) = Some (reencoded cs)" by simp
    ultimately show ?thesis
      using True unquoteBody_ascii [OF True, of "appendBody cs"]
      by (simp del: unquoteBody.simps)
  next
    case False
    show ?thesis
    proof (cases "(r, w) = (runeError, 1)")
      case True
      with d rc have "reencoded (c # cs) = EncodeRune runeError @ reencoded cs" by simp
      moreover from False True d 2 have "unquoteBody (appendBody cs) = Some (reencoded cs)" by simp
      ultimately show ?thesis
        using False True d unquoteBody_bad [of "appendBody cs"]
        by (simp del: unquoteBody.simps)
    next
      case ok: False
      from d rc have re: "reencoded (c # cs) = EncodeRune r @ reencoded (drop w (c # cs))" by simp
      from d ok have ne: "decodeRune (c # cs) \<noteq> (runeError, 1)" by simp
      from d have fs: "fst (decodeRune (c # cs)) = r" "snd (decodeRune (c # cs)) = w" by simp_all
      from False ne fs 2
      have ih: "unquoteBody (appendBody (drop w (c # cs))) = Some (reencoded (drop w (c # cs)))"
        by (cases "r = 0x2028 \<or> r = 0x2029") simp_all
      from False ne fs
      have ab: "appendBody (c # cs) =
          (if r = 0x2028 \<or> r = 0x2029
           then [CHR 0x5C, CHR ''u'', CHR ''2'', CHR ''0'', CHR ''2'', hex (r mod 16)]
                  @ appendBody (drop w (c # cs))
           else take w (c # cs) @ appendBody (drop w (c # cs)))"
        by simp
      show ?thesis
      proof (cases "r = 0x2028 \<or> r = 0x2029")
        case True
        from unquoteBody_separator [OF True, of "appendBody (drop w (c # cs))"] True ih re
        show ?thesis by (simp only: ab if_True option.map)
      next
        case sep: False
        from unquoteBody_rune [OF False d ok, of "appendBody (drop w (c # cs))"] sep ih re
        show ?thesis by (simp only: ab if_False option.map)
      qed
    qed
  qed
qed

lemma unquote_appendString: "unquote (appendString s) = Some (reencoded s)"
  by (simp add: unquote_def appendString_def unquoteBody_appendBody)

lemma unmarshalPage_marshalPage: "unmarshalPage (marshalPage p) = Some (reencodedPage p)"
  by (simp add: unmarshalPage_def marshalPage_def reencodedPage_def unquote_appendString)

lemma unmarshalProvider_marshalProvider:
  "unmarshalProvider (marshalProvider v) = Some (reencodedProvider v)"
  by (simp add: unmarshalProvider_def marshalProvider_def reencodedProvider_def unquote_appendString)

lemma those_unmarshalPage:
  "those (map unmarshalPage (map marshalPage ps)) = Some (map reencodedPage ps)"
  by (induction ps) (simp_all add: unmarshalPage_marshalPage)

lemma unmarshalTask_marshalTask: "unmarshalTask (marshalTask t) = Some (reencodedTask t)"
  by (simp add: unmarshalTask_def marshalTask_def reencodedTask_def unquote_appendString
      those_unmarshalPage unmarshalProvider_marshalProvider del: map_map)

lemma reencodedPage_valid: "validPage p \<Longrightarrow> reencodedPage p = p"
  by (simp add: validPage_def reencodedPage_def reencoded_valid)

lemma reencodedProvider_valid: "validProvider v \<Longrightarrow> reencodedProvider v = v"
  by (simp add: validProvider_def reencodedProvider_def reencoded_valid)

lemma reencodedPages_valid: "list_all validPage ps \<Longrightarrow> map reencodedPage ps = ps"
  by (induction ps) (simp_all add: reencodedPage_valid)

lemma reencodedTask_valid: "validTask t \<Longrightarrow> reencodedTask t = t"
  by (simp add: validTask_def reencodedTask_def reencoded_valid reencodedPages_valid
      reencodedProvider_valid)

section \<open>C9: loading a task and saving it back\<close>

lemma unmarshal_marshal_json: "unmarshal jsonCodec (marshal jsonCodec t) = Some (reencodedTask t)"
  by (simp add: jsonCodec_def unmarshalTask_marshalTask)

lemma json_on_disk:
  "files (snd jsonCreated) (metaPath exampleService ''t1'') = Some (marshal jsonCodec jsonTask)"
  by (simp add: jsonCreated_def jsonTask_def CreateTask_def exampleCreate_def Let_def
      saveTask_def saveTaskLocked_def newTask_def)

lemma json_example:
  "ID jsonTask = ''t1''" "validTask jsonTask" "UpdatedAt jsonTask = 12"
  by code_simp+

text \<open>
  C9. Let \<open>meta.json\<close> of a task hold what \<open>Save\<close> wrote for a task \<open>t\<close>, as JSON.
  Loading it returns \<open>t\<close> with every string read as UTF-8 and written again. When
  all strings of \<open>t\<close> are valid UTF-8, loading the task and saving it with no field
  changed succeeds and leaves as \<open>meta.json\<close> the document of \<open>t\<close> with only
  \<open>UpdatedAt\<close> re-stamped; the temporary file is gone and no other file is touched. If
  the clock has not moved, the file is the same as before.
\<close>

theorem save_after_load_json:
  assumes "files d (metaPath s taskID) = Some (marshal jsonCodec t)"
    and "ID t = taskID"
    and "save_outcome io = SaveOK"
  shows "loadTask jsonCodec s d taskID = Inr (reencodedTask t)
       \<and> (validTask t \<longrightarrow>
            saveLoaded jsonCodec s io taskID d =
              (None, d\<lparr>files := ((files d)(metaPath s taskID @ ''.tmp'' := None))
                          (metaPath s taskID \<mapsto> marshal jsonCodec (t\<lparr>UpdatedAt := save_now io\<rparr>))\<rparr>)
            \<and> (save_now io = UpdatedAt t \<longrightarrow>
                 files (snd (saveLoaded jsonCodec s io taskID d)) (metaPath s taskID)
                   = files d (metaPath s taskID)))"
proof (intro conjI impI)
  from assms(1) show ld: "loadTask jsonCodec s d taskID = Inr (reencodedTask t)"
    by (simp add: loadTask_def unmarshal_marshal_json)
  assume v: "validTask t"
  with ld have ld': "loadTask jsonCodec s d taskID = Inr t"
    by (simp add: reencodedTask_valid)
  show sv: "saveLoaded jsonCodec s io taskID d =
              (None, d\<lparr>files := ((files d)(metaPath s taskID @ ''.tmp'' := None))
                          (metaPath s taskID \<mapsto> marshal jsonCodec (t\<lparr>UpdatedAt := save_now io\<rparr>))\<rparr>)"
    using assms(2,3) by (simp add: saveLoaded_def ld' saveTaskLocked_def Let_def)
  assume "save_now io = UpdatedAt t"
  then have "t\<lparr>UpdatedAt := save_now io\<rparr> = t" by simp
  with sv assms(1) show "files (snd (saveLoaded jsonCodec s io taskID d)) (metaPath s taskID)
                   = files d (metaPath s taskID)"
    by simp
qed

text \<open>
  The stored example task, all of whose strings are ASCII, loaded and saved at the time
  of its last save: the file is what it was.
\<close>

theorem save_after_load_json_witness:
  "validTask jsonTask
   \<and> loadTask jsonCodec exampleService (snd jsonCreated) ''t1'' = Inr jsonTask
   \<and> fst jsonResaved = None
   \<and> files (snd jsonResaved) (metaPath exampleService ''t1'')
        = files (snd jsonCreated) (metaPath exampleService ''t1'')"
proof -
  have io: "save_outcome sameClock = SaveOK" "save_now sameClock = UpdatedAt jsonTask"
    by (simp_all add: sameClock_def json_example)
  note main = save_after_load_json [OF json_on_disk json_example(1) io(1)]
  from main [THEN conjunct1] have ld: "loadTask jsonCodec exampleService (snd jsonCreated) ''t1'' = Inr jsonTask"
    by (simp add: reencodedTask_valid json_example)
  from main [THEN conjunct2, rule_format, OF json_example(2)] io(2)
  have "fst jsonResaved = None"
    "files (snd jsonResaved) (metaPath exampleService ''t1'')
        = files (snd jsonCreated) (metaPath exampleService ''t1'')"
    by (simp_all add: jsonResaved_def json_on_disk)
  with ld json_example(2) show ?thesis by simp
qed

text \<open>
  C9 as stated fails for a string that is not valid UTF-8. The file name of the upload is
  two bytes that start no UTF-8 encoding and \<open>.pdf\<close>. The first save writes each of
  the two bytes as the escape of U+FFFD; the load reads two characters U+FFFD, and the
  save that follows, at the same time stamp, writes them as the bytes \<open>EF BF BD\<close>.
\<close>

theorem invalid_file_name_changes_bytes:
  "storedFileName (snd gbkCreated)
     = Some [CHR 0x22, CHR 0x5C, CHR ''u'', CHR ''f'', CHR ''f'', CHR ''f'', CHR ''d'',
             CHR 0x5C, CHR ''u'', CHR ''f'', CHR ''f'', CHR ''f'', CHR ''d'',
             CHR ''.'', CHR ''p'', CHR ''d'', CHR ''f'', CHR 0x22]
   \<and> fst gbkResaved = None
   \<and> storedFileName (snd gbkResaved)
     = Some [CHR 0x22, CHR 0xEF, CHR 0xBF, CHR 0xBD, CHR 0xEF, CHR 0xBF, CHR 0xBD,
             CHR ''.'', CHR ''p'', CHR ''d'', CHR ''f'', CHR 0x22]
   \<and> storedUpdatedAt (snd gbkCreated) = Some 12
   \<and> storedUpdatedAt (snd gbkResaved) = Some 12
   \<and> files (snd gbkResaved) (metaPath exampleService ''t1'')
       \<noteq> files (snd gbkCreated) (metaPath exampleService ''t1'')"
  by code_simp

end
